theory Spec2Isabelle
  imports Complex_Main
begin

section \<open>Basketball shot form analyzer: the metrics pipeline of app.js\<close>

text \<open>
  The embedding follows \<^verbatim>\<open>src/app.js\<close> function by function. JavaScript numbers are
  IEEE doubles. The geometry, the scoring functions and the means are modelled over the
  mathematical reals (\<^verbatim>\<open>Math.PI\<close> is \<open>pi\<close>, \<^verbatim>\<open>Math.abs\<close> is \<open>abs\<close>, \<^verbatim>\<open>Math.max\<close> is
  \<open>max\<close>, arithmetic exact), which differs from the program by rounding errors only. The
  composite score is rounded to an integer, where a rounding error in the sum can change
  the result by one, so its weighted sum is modelled in double arithmetic: every product
  and every sum is rounded to the nearest double. NaN, infinities and the sign of zero are
  outside the model.
\<close>

subsection \<open>Library functions of the language\<close>

text \<open>
  \<^verbatim>\<open>Math.atan2(y, x)\<close> as ECMAScript defines it on finite numbers: the angle of the
  point \<open>(x, y)\<close> in \<open>(-pi, pi]\<close>, and \<open>0\<close> at the origin.
\<close>

definition atan2 :: "real \<Rightarrow> real \<Rightarrow> real" where
  "atan2 b a =
     (if 0 < a then arctan (b / a)
      else if a < 0 then (if 0 \<le> b then arctan (b / a) + pi else arctan (b / a) - pi)
      else if 0 < b then pi / 2
      else if b < 0 then - (pi / 2)
      else 0)"

text \<open>\<^verbatim>\<open>Math.round\<close>: the nearest integer, a tie going towards plus infinity.\<close>

definition Math_round :: "real \<Rightarrow> int" where
  "Math_round v = \<lfloor>v + 1 / 2\<rfloor>"

text \<open>
  Double arithmetic. \<open>double_of v\<close> is the double nearest to the real \<open>v\<close>, a tie going
  to the even significand: \<open>v\<close> is scaled by its unit in the last place, \<open>2\<close> to the power
  \<open>\<lfloor>log 2 |v|\<rfloor> - 52\<close> (from exponent \<open>-1022\<close> down the unit stays \<open>2 ^ -1074\<close>, the
  subnormal range), rounded to an integer and scaled back. Overflow to infinity is not
  modelled. The product and the sum of two doubles are the doubles nearest to the exact
  product and sum.
\<close>

definition round_half_even :: "real \<Rightarrow> int" where
  "round_half_even v =
     (let f = \<lfloor>v\<rfloor>; d = v - of_int f
      in if d < 1 / 2 then f else if 1 / 2 < d then f + 1 else if even f then f else f + 1)"

definition ulp_exponent :: "real \<Rightarrow> int" where
  "ulp_exponent v = max \<lfloor>log 2 \<bar>v\<bar>\<rfloor> (- 1022) - 52"

definition double_of :: "real \<Rightarrow> real" where
  "double_of v =
     (if v = 0 then 0
      else of_int (round_half_even (v / 2 powr of_int (ulp_exponent v)))
           * 2 powr of_int (ulp_exponent v))"

definition mul_double :: "real \<Rightarrow> real \<Rightarrow> real" where
  "mul_double a b = double_of (a * b)"

definition add_double :: "real \<Rightarrow> real \<Rightarrow> real" where
  "add_double a b = double_of (a + b)"

text \<open>The doubles that the literals \<^verbatim>\<open>0.3\<close> and \<^verbatim>\<open>0.2\<close> denote.\<close>

definition lit_03 :: real where
  "lit_03 = double_of (3 / 10)"

definition lit_02 :: real where
  "lit_02 = double_of (2 / 10)"

subsection \<open>Data\<close>

text \<open>
  A landmark as the pose source delivers it; only the two normalized coordinates are
  read by the analysis (fields \<^verbatim>\<open>x\<close> and \<^verbatim>\<open>y\<close> of the source).
\<close>

record landmark =
  lm_x :: real
  lm_y :: real

text \<open>
  The landmark array. An entry \<open>None\<close> is an element that is \<^verbatim>\<open>undefined\<close> (or
  \<^verbatim>\<open>null\<close>); reading an index beyond the length gives \<^verbatim>\<open>undefined\<close> too.
\<close>

type_synonym landmarks = "landmark option list"

definition elem_at :: "landmarks \<Rightarrow> nat \<Rightarrow> landmark option" where
  "elem_at a i = (if i < length a then a ! i else None)"

text \<open>
  The argument of the per-frame callback: \<^verbatim>\<open>results.poseLandmarks\<close> is absent
  (\<open>None\<close>) when no pose was detected. The image is only drawn and is left out.
\<close>

record results =
  poseLandmarks :: "landmarks option"

datatype js_error = TypeError

datatype outcome = Returned | Threw js_error

text \<open>\<^verbatim>\<open>let analysisData = { elbowAngles: [], ... }\<close> and \<^verbatim>\<open>let frameCount = 0\<close>.\<close>

record analysisData =
  elbowAngles :: "real list"
  releaseHeights :: "real list"
  kneeAngles :: "real list"
  alignmentScores :: "real list"

text \<open>
  The texts the script writes into the page. \<open>AsLoaded\<close>, \<open>FeedbackAsLoaded\<close> and
  \<open>None\<close> stand for what the page shows before the script has written the element.
  Colours, style classes and the canvas are not modelled.
\<close>

datatype display = AsLoaded | Dashes | Shown int

datatype feedback =
  FeedbackAsLoaded | NoPersonDetected | StatisticsReset
  | Excellent | Good | Fair | NeedsImprovement

datatype elbow_label = PerfectElbow | RaiseElbow | LowerElbow

datatype release_label = OptimalRelease | ReleaseTooLow | ReleaseTooHigh

datatype knee_label = GoodKneeBend | BendKneesMore | KneesTooBent

datatype alignment_label = PerfectAlignment | CheckShoulderLevel

record page =
  overall_score :: display
  elbow_angle :: display
  release_height :: display
  knee_angle :: display
  alignment_score :: display
  form_feedback :: feedback
  score_ring :: "int option"
  elbow_bar :: "real option"
  release_bar :: "real option"
  knee_bar :: "real option"
  alignment_bar :: "real option"
  elbow_status :: "elbow_label option"
  release_status :: "release_label option"
  knee_status :: "knee_label option"
  alignment_status :: "alignment_label option"

record state =
  data :: analysisData
  frameCount :: nat
  ui :: page

definition initial_page :: page where
  "initial_page =
     \<lparr>overall_score = AsLoaded, elbow_angle = AsLoaded, release_height = AsLoaded,
      knee_angle = AsLoaded, alignment_score = AsLoaded, form_feedback = FeedbackAsLoaded,
      score_ring = None, elbow_bar = None, release_bar = None, knee_bar = None,
      alignment_bar = None, elbow_status = None, release_status = None,
      knee_status = None, alignment_status = None\<rparr>"

definition initial_state :: state where
  "initial_state =
     \<lparr>data = \<lparr>elbowAngles = [], releaseHeights = [], kneeAngles = [], alignmentScores = []\<rparr>,
      frameCount = 0, ui = initial_page\<rparr>"

subsection \<open>Geometry\<close>

text \<open>
  \<^verbatim>\<open>calculateAngle(point1, point2, point3)\<close> (lines 300-310), and after it
  \<^verbatim>\<open>calculateReleaseAngle\<close> (315-320) and \<^verbatim>\<open>calculateAlignment\<close> (325-329). Reading \<^verbatim>\<open>.x\<close> or \<^verbatim>\<open>.y\<close> of an
  undefined point throws a TypeError.
\<close>

definition calculateAngle ::
  "landmark option \<Rightarrow> landmark option \<Rightarrow> landmark option \<Rightarrow> js_error + real" where
  "calculateAngle point1 point2 point3 =
     (case (point1, point2, point3) of
        (Some p1, Some p2, Some p3) \<Rightarrow>
          (let radians = atan2 (lm_y p3 - lm_y p2) (lm_x p3 - lm_x p2)
                         - atan2 (lm_y p1 - lm_y p2) (lm_x p1 - lm_x p2);
               angle = \<bar>radians * 180 / pi\<bar>
           in Inr (if angle > 180 then 360 - angle else angle))
      | _ \<Rightarrow> Inl TypeError)"

definition calculateReleaseAngle :: "landmark option \<Rightarrow> landmark option \<Rightarrow> js_error + real" where
  "calculateReleaseAngle shoulder wrist =
     (case (shoulder, wrist) of
        (Some sh, Some wr) \<Rightarrow>
          (let deltaY = lm_y sh - lm_y wr;
               deltaX = \<bar>lm_x sh - lm_x wr\<bar>;
               angle = atan2 deltaY deltaX * 180 / pi
           in Inr (max 0 angle))
      | _ \<Rightarrow> Inl TypeError)"

definition calculateAlignment :: "landmark option \<Rightarrow> landmark option \<Rightarrow> js_error + real" where
  "calculateAlignment leftShoulder rightShoulder =
     (case (leftShoulder, rightShoulder) of
        (Some l, Some r) \<Rightarrow>
          (let shoulderDiff = \<bar>lm_y l - lm_y r\<bar>;
               alignmentScore = max 0 (100 - shoulderDiff * 1000)
           in Inr alignmentScore)
      | _ \<Rightarrow> Inl TypeError)"

subsection \<open>Scoring\<close>

definition scoreElbowAngle :: "real \<Rightarrow> real" where
  "scoreElbowAngle angle =
     (let optimal = 90; tolerance = 10; diff = \<bar>angle - optimal\<bar>
      in if diff \<le> tolerance then 100 - diff * 5
         else max 0 (50 - (diff - tolerance) * 2))"

definition scoreReleaseHeight :: "real \<Rightarrow> real" where
  "scoreReleaseHeight angle =
     (if angle \<ge> 45 \<and> angle \<le> 60 then 100
      else if angle < 45 then max 0 (angle / 45 * 100)
      else max 0 (100 - (angle - 60) * 3))"

definition scoreKneeAngle :: "real \<Rightarrow> real" where
  "scoreKneeAngle angle =
     (if angle \<ge> 100 \<and> angle \<le> 130 then 100
      else if angle < 100 then max 0 (angle / 100 * 100)
      else max 0 (100 - (angle - 130) * 2))"

text \<open>
  \<^verbatim>\<open>average(arr)\<close> (lines 526-529): \<open>0\<close> for the empty array, else the left-to-right
  sum over the length.
\<close>

definition average :: "real list \<Rightarrow> real" where
  "average arr = (if length arr = 0 then 0 else foldl (+) 0 arr / real (length arr))"

subsection \<open>Feedback\<close>

text \<open>
  \<^verbatim>\<open>updateFeedback(overall, elbow, release, knee, alignment)\<close>: only \<open>overall\<close> is read.
\<close>

definition updateFeedback :: "int \<Rightarrow> real \<Rightarrow> real \<Rightarrow> real \<Rightarrow> real \<Rightarrow> page \<Rightarrow> page" where
  "updateFeedback overall elbow release knee alignment p =
     (if overall \<ge> 85 then p\<lparr>form_feedback := Excellent\<rparr>
      else if overall \<ge> 70 then p\<lparr>form_feedback := Good\<rparr>
      else if overall \<ge> 50 then p\<lparr>form_feedback := Fair\<rparr>
      else p\<lparr>form_feedback := NeedsImprovement\<rparr>)"

definition updateStatusMessages :: "real \<Rightarrow> real \<Rightarrow> real \<Rightarrow> real \<Rightarrow> page \<Rightarrow> page" where
  "updateStatusMessages elbow release knee alignment p =
     (let p1 = (if elbow \<ge> 85 \<and> elbow \<le> 95 then p\<lparr>elbow_status := Some PerfectElbow\<rparr>
                else if elbow < 85 then p\<lparr>elbow_status := Some RaiseElbow\<rparr>
                else p\<lparr>elbow_status := Some LowerElbow\<rparr>);
          p2 = (if release \<ge> 45 \<and> release \<le> 60 then p1\<lparr>release_status := Some OptimalRelease\<rparr>
                else if release < 45 then p1\<lparr>release_status := Some ReleaseTooLow\<rparr>
                else p1\<lparr>release_status := Some ReleaseTooHigh\<rparr>);
          p3 = (if knee \<ge> 100 \<and> knee \<le> 130 then p2\<lparr>knee_status := Some GoodKneeBend\<rparr>
                else if knee < 100 then p2\<lparr>knee_status := Some BendKneesMore\<rparr>
                else p2\<lparr>knee_status := Some KneesTooBent\<rparr>)
      in if alignment \<ge> 90 then p3\<lparr>alignment_status := Some PerfectAlignment\<rparr>
         else p3\<lparr>alignment_status := Some CheckShoulderLevel\<rparr>)"

definition updateProgressBars :: "real \<Rightarrow> real \<Rightarrow> real \<Rightarrow> real \<Rightarrow> page \<Rightarrow> page" where
  "updateProgressBars elbowScore releaseScore kneeScore alignmentScore p =
     p\<lparr>elbow_bar := Some elbowScore, release_bar := Some releaseScore,
       knee_bar := Some kneeScore, alignment_bar := Some alignmentScore\<rparr>"

subsection \<open>The per-frame pipeline\<close>

text \<open>
  \<^verbatim>\<open>drawPose(landmarks)\<close> only paints, but its second loop reads \<^verbatim>\<open>landmark.x\<close> of
  every element with index 11..28, which throws on an undefined element (the first loop
  guards both end points of a connection). Indices beyond the length are not visited.
\<close>

definition drawPose :: "landmarks \<Rightarrow> js_error + unit" where
  "drawPose landmarks =
     (if list_ex (\<lambda>i. 10 < i \<and> i < 29 \<and> landmarks ! i = None) [0..<length landmarks]
      then Inl TypeError else Inr ())"

text \<open>
  \<^verbatim>\<open>analyzeShootingForm(landmarks)\<close>, lines 225-243 (the seven landmark reads and the
  four geometry calls, in the source's order): the raw metrics of the frame, the constants
  \<^verbatim>\<open>elbowAngle\<close>, \<^verbatim>\<open>releaseHeight\<close>, \<^verbatim>\<open>kneeAngle\<close> and \<^verbatim>\<open>alignmentScore\<close> of the
  source, or the error thrown.
\<close>

record frame_metrics =
  raw_elbow :: real
  raw_release :: real
  raw_knee :: real
  raw_alignment :: real

definition frameMetrics :: "landmarks \<Rightarrow> js_error + frame_metrics" where
  "frameMetrics landmarks =
     (let rightShoulder = elem_at landmarks 12;
          rightElbow = elem_at landmarks 14;
          rightWrist = elem_at landmarks 16;
          rightHip = elem_at landmarks 24;
          rightKnee = elem_at landmarks 26;
          rightAnkle = elem_at landmarks 28;
          leftShoulder = elem_at landmarks 11
      in case calculateAngle rightShoulder rightElbow rightWrist of
           Inl e \<Rightarrow> Inl e
         | Inr elbowAngle \<Rightarrow>
        (case calculateReleaseAngle rightShoulder rightWrist of
           Inl e \<Rightarrow> Inl e
         | Inr releaseHeight \<Rightarrow>
        (case calculateAngle rightHip rightKnee rightAnkle of
           Inl e \<Rightarrow> Inl e
         | Inr kneeAngle \<Rightarrow>
        (case calculateAlignment leftShoulder rightShoulder of
           Inl e \<Rightarrow> Inl e
         | Inr alignmentScore \<Rightarrow>
             Inr \<lparr>raw_elbow = elbowAngle, raw_release = releaseHeight,
                  raw_knee = kneeAngle, raw_alignment = alignmentScore\<rparr>))))"

text \<open>The four \<^verbatim>\<open>push\<close> calls (lines 246-249).\<close>

definition pushMetrics :: "frame_metrics \<Rightarrow> analysisData \<Rightarrow> analysisData" where
  "pushMetrics m d =
     d\<lparr>elbowAngles := elbowAngles d @ [raw_elbow m],
       releaseHeights := releaseHeights d @ [raw_release m],
       kneeAngles := kneeAngles d @ [raw_knee m],
       alignmentScores := alignmentScores d @ [raw_alignment m]\<rparr>"

text \<open>
  \<^verbatim>\<open>if (analysisData.elbowAngles.length > 30) { ... shift() x 4 }\<close> (lines 252-257): the test reads the
  elbow queue only. \<^verbatim>\<open>shift\<close> removes the first element (\<open>tl [] = []\<close>, as
  \<^verbatim>\<open>shift\<close> leaves an empty array empty).
\<close>

definition keepLast30 :: "analysisData \<Rightarrow> analysisData" where
  "keepLast30 d =
     (if length (elbowAngles d) > 30
      then d\<lparr>elbowAngles := tl (elbowAngles d),
             releaseHeights := tl (releaseHeights d),
             kneeAngles := tl (kneeAngles d),
             alignmentScores := tl (alignmentScores d)\<rparr>
      else d)"

text \<open>
  The composite score, \<^verbatim>\<open>const overallScore = Math.round(...)\<close> (lines 278-283): the
  argument of \<^verbatim>\<open>Math.round\<close> is \<open>weightedSum\<close>, four products added from left to right
  in double arithmetic.
\<close>

definition weightedSum :: "real \<Rightarrow> real \<Rightarrow> real \<Rightarrow> real \<Rightarrow> real" where
  "weightedSum elbowScore releaseScore kneeScore alignmentScoreValue =
     add_double
       (add_double
         (add_double (mul_double elbowScore lit_03) (mul_double releaseScore lit_03))
         (mul_double kneeScore lit_02))
       (mul_double alignmentScoreValue lit_02)"

definition overallScore :: "real \<Rightarrow> real \<Rightarrow> real \<Rightarrow> real \<Rightarrow> int" where
  "overallScore elbowScore releaseScore kneeScore alignmentScoreValue =
     Math_round (weightedSum elbowScore releaseScore kneeScore alignmentScoreValue)"

text \<open>
  \<^verbatim>\<open>analyzeShootingForm\<close>, lines 260-290: the averages of the updated queues, the
  scores and everything written to the page.
\<close>

definition report :: "analysisData \<Rightarrow> page \<Rightarrow> page" where
  "report d p =
     (let avgElbow = average (elbowAngles d);
          avgRelease = average (releaseHeights d);
          avgKnee = average (kneeAngles d);
          avgAlignment = average (alignmentScores d);
          p1 = p\<lparr>elbow_angle := Shown (Math_round avgElbow),
                 release_height := Shown (Math_round avgRelease),
                 knee_angle := Shown (Math_round avgKnee),
                 alignment_score := Shown (Math_round avgAlignment)\<rparr>;
          elbowScore = scoreElbowAngle avgElbow;
          releaseScore = scoreReleaseHeight avgRelease;
          kneeScore = scoreKneeAngle avgKnee;
          alignmentScoreValue = avgAlignment;
          overall = overallScore elbowScore releaseScore kneeScore alignmentScoreValue;
          p2 = p1\<lparr>overall_score := Shown overall, score_ring := Some overall\<rparr>;
          p3 = updateProgressBars elbowScore releaseScore kneeScore alignmentScoreValue p2;
          p4 = updateFeedback overall elbowScore releaseScore kneeScore alignmentScoreValue p3
      in updateStatusMessages avgElbow avgRelease avgKnee avgAlignment p4)"

definition analyzeShootingForm :: "landmarks \<Rightarrow> state \<Rightarrow> outcome \<times> state" where
  "analyzeShootingForm landmarks s =
     (case frameMetrics landmarks of
        Inl e \<Rightarrow> (Threw e, s)
      | Inr m \<Rightarrow>
          (let d = keepLast30 (pushMetrics m (data s))
           in (Returned, s\<lparr>data := d, ui := report d (ui s)\<rparr>)))"

text \<open>
  \<^verbatim>\<open>onPoseResults(results)\<close> (lines 144-168), the callback the pose source calls once per
  frame.
\<close>

definition onPoseResults :: "results \<Rightarrow> state \<Rightarrow> outcome \<times> state" where
  "onPoseResults res s =
     (case poseLandmarks res of
        None \<Rightarrow> (Returned, s\<lparr>ui := (ui s)\<lparr>form_feedback := NoPersonDetected\<rparr>\<rparr>)
      | Some landmarks \<Rightarrow>
          (case drawPose landmarks of
             Inl e \<Rightarrow> (Threw e, s)
           | Inr _ \<Rightarrow>
               (case analyzeShootingForm landmarks s of
                  (Threw e, s') \<Rightarrow> (Threw e, s')
                | (Returned, s') \<Rightarrow> (Returned, s'\<lparr>frameCount := frameCount s' + 1\<rparr>))))"

text \<open>\<^verbatim>\<open>resetStats()\<close> (lines 119-138).\<close>

definition resetStats :: "state \<Rightarrow> state" where
  "resetStats s =
     (let p1 = (ui s)\<lparr>overall_score := Dashes, elbow_angle := Dashes, release_height := Dashes,
                     knee_angle := Dashes, alignment_score := Dashes,
                     form_feedback := StatisticsReset\<rparr>;
          p2 = updateProgressBars 0 0 0 0 p1
      in s\<lparr>data := \<lparr>elbowAngles = [], releaseHeights = [], kneeAngles = [],
                     alignmentScores = []\<rparr>,
           frameCount := 0,
           ui := p2\<lparr>score_ring := Some 0\<rparr>\<rparr>)"

text \<open>
  A session: the pose source calls \<^verbatim>\<open>onPoseResults\<close> once per frame and the reset
  button calls \<^verbatim>\<open>resetStats\<close>. An error thrown by one callback ends that callback
  only; the globals keep what was written before the throw and the next event runs on them.
\<close>

datatype event = Frame results | Reset

fun step :: "state \<Rightarrow> event \<Rightarrow> state" where
  "step s (Frame res) = snd (onPoseResults res s)"
| "step s Reset = resetStats s"

definition run :: "event list \<Rightarrow> state \<Rightarrow> state" where
  "run evs s = foldl step s evs"

subsection \<open>Notions used to state the properties\<close>

text \<open>
  A valid frame is one on which \<^verbatim>\<open>onPoseResults\<close> reaches the four \<^verbatim>\<open>push\<close> calls:
  a pose is present, the drawing does not throw and the geometry does not throw.
  \<open>rawMetrics\<close> gives the raw metrics of such a frame and \<open>None\<close> for any other.
\<close>

definition rawMetrics :: "results \<Rightarrow> frame_metrics option" where
  "rawMetrics res =
     (case poseLandmarks res of
        None \<Rightarrow> None
      | Some landmarks \<Rightarrow>
          (case drawPose landmarks of
             Inl e \<Rightarrow> None
           | Inr u \<Rightarrow> (case frameMetrics landmarks of Inl e \<Rightarrow> None | Inr m \<Rightarrow> Some m)))"

text \<open>The four queues have one length; and that length is at most 30.\<close>

definition sameLengths :: "analysisData \<Rightarrow> bool" where
  "sameLengths d \<longleftrightarrow>
     length (releaseHeights d) = length (elbowAngles d)
     \<and> length (kneeAngles d) = length (elbowAngles d)
     \<and> length (alignmentScores d) = length (elbowAngles d)"

definition windowed :: "analysisData \<Rightarrow> bool" where
  "windowed d \<longleftrightarrow> sameLengths d \<and> length (elbowAngles d) \<le> 30"

text \<open>The last \<open>n\<close> values of a list (all of it when it is shorter).\<close>

definition lastN :: "nat \<Rightarrow> 'a list \<Rightarrow> 'a list" where
  "lastN n q = drop (length q - n) q"

text \<open>
  The spec's words for one queue, "if length exceeds 30, evict the oldest", applied to the
  queue after the append.
\<close>

definition spec_evict :: "real list \<Rightarrow> real list" where
  "spec_evict q = (if length q > 30 then tl q else q)"

text \<open>The scoring table and the geometry formulas as the spec words them.\<close>

definition spec_elbowScore :: "real \<Rightarrow> real" where
  "spec_elbowScore angle =
     (if \<bar>angle - 90\<bar> \<le> 10 then 100 - 5 * \<bar>angle - 90\<bar>
      else max 0 (50 - 2 * (\<bar>angle - 90\<bar> - 10)))"

definition spec_releaseScore :: "real \<Rightarrow> real" where
  "spec_releaseScore angle =
     (if 45 \<le> angle \<and> angle \<le> 60 then 100
      else if angle < 45 then max 0 (angle / 45 * 100)
      else max 0 (100 - 3 * (angle - 60)))"

definition spec_kneeScore :: "real \<Rightarrow> real" where
  "spec_kneeScore angle =
     (if 100 \<le> angle \<and> angle \<le> 130 then 100
      else if angle < 100 then max 0 (angle / 100 * 100)
      else max 0 (100 - 2 * (angle - 130)))"

definition spec_alignmentScore :: "real \<Rightarrow> real" where
  "spec_alignmentScore d = max 0 (100 - 1000 * \<bar>d\<bar>)"

definition spec_releaseAngle :: "landmark \<Rightarrow> landmark \<Rightarrow> real" where
  "spec_releaseAngle shoulder wrist =
     max 0 (atan2 (lm_y shoulder - lm_y wrist) \<bar>lm_x shoulder - lm_x wrist\<bar> * 180 / pi)"

text \<open>A landmark in normalized image coordinates: both coordinates between 0 and 1.\<close>

definition normalized :: "landmark \<Rightarrow> bool" where
  "normalized p \<longleftrightarrow> 0 \<le> lm_x p \<and> lm_x p \<le> 1 \<and> 0 \<le> lm_y p \<and> lm_y p \<le> 1"

subsection \<open>Example frames\<close>

text \<open>
  A pose of 33 landmarks: upper arm horizontal and forearm vertical (elbow 90 degrees),
  wrist above the shoulder on the 45 degree line, knee at 135 degrees, left shoulder lower
  than the right by 0.01. \<open>still_pose\<close> has all 33 landmarks at one point, and
  \<open>no_shoulder_pose\<close> is the example pose with the right shoulder undefined.
\<close>

definition example_pose :: landmarks where
  "example_pose =
     (replicate 33 (Some \<lparr>lm_x = 1 / 2, lm_y = 1 / 2\<rparr>))
       [11 := Some \<lparr>lm_x = 3 / 5, lm_y = 41 / 100\<rparr>,
        12 := Some \<lparr>lm_x = 2 / 5, lm_y = 2 / 5\<rparr>,
        14 := Some \<lparr>lm_x = 3 / 5, lm_y = 2 / 5\<rparr>,
        16 := Some \<lparr>lm_x = 3 / 5, lm_y = 1 / 5\<rparr>,
        24 := Some \<lparr>lm_x = 3 / 10, lm_y = 13 / 20\<rparr>,
        26 := Some \<lparr>lm_x = 2 / 5, lm_y = 3 / 4\<rparr>,
        28 := Some \<lparr>lm_x = 2 / 5, lm_y = 9 / 10\<rparr>]"

definition example_metrics :: frame_metrics where
  "example_metrics = \<lparr>raw_elbow = 90, raw_release = 45, raw_knee = 135, raw_alignment = 90\<rparr>"

definition still_pose :: landmarks where
  "still_pose = replicate 33 (Some \<lparr>lm_x = 1 / 2, lm_y = 1 / 2\<rparr>)"

definition still_metrics :: frame_metrics where
  "still_metrics = \<lparr>raw_elbow = 0, raw_release = 0, raw_knee = 0, raw_alignment = 100\<rparr>"


section \<open>Properties\<close>

subsection \<open>Auxiliary facts: double rounding\<close>

lemma rhe_cases: "round_half_even v = \<lfloor>v\<rfloor> \<or> round_half_even v = \<lfloor>v\<rfloor> + 1"
  by (simp add: round_half_even_def Let_def)

lemma rhe_error: "\<bar>of_int (round_half_even v) - v\<bar> \<le> 1 / 2"
proof -
  have "of_int \<lfloor>v\<rfloor> \<le> v" "v < of_int \<lfloor>v\<rfloor> + 1" by linarith+
  then show ?thesis
    by (auto simp: round_half_even_def Let_def abs_le_iff)
qed

lemma rhe_of_int: "round_half_even (of_int n) = n"
  by (simp add: round_half_even_def)

lemma rhe_mono:
  assumes "v \<le> w"
  shows "round_half_even v \<le> round_half_even w"
proof (rule ccontr)
  assume "\<not> ?thesis"
  then have gt: "round_half_even w + 1 \<le> round_half_even v" by simp
  then have "of_int (round_half_even w) + (1::real) \<le> of_int (round_half_even v)"
    by (metis of_int_1 of_int_add of_int_le_iff)
  moreover have "of_int (round_half_even v) - v \<le> 1 / 2"
    using rhe_error[of v] by linarith
  moreover have "w - of_int (round_half_even w) \<le> 1 / 2"
    using rhe_error[of w] by linarith
  ultimately have "v = w" using assms by linarith
  with \<open>\<not> ?thesis\<close> show False by simp
qed

lemma rhe_le_int: "v \<le> of_int n \<Longrightarrow> round_half_even v \<le> n"
  using rhe_mono[of v "of_int n"] by (simp add: rhe_of_int)

lemma rhe_ge_int: "of_int n \<le> v \<Longrightarrow> n \<le> round_half_even v"
  using rhe_mono[of "of_int n" v] by (simp add: rhe_of_int)


lemma rhe_nonneg: "0 \<le> v \<Longrightarrow> 0 \<le> round_half_even v"
  using rhe_ge_int[of 0 v] by simp

lemma ulp_pos: "0 < 2 powr real_of_int k"
  by simp

lemma double_of_nonneg: "0 \<le> v \<Longrightarrow> 0 \<le> double_of v"
  by (simp add: double_of_def rhe_nonneg)

lemma exponent_bounds:
  assumes "0 < v"
  shows "2 powr of_int \<lfloor>log 2 v\<rfloor> \<le> v" and "v < 2 powr (of_int \<lfloor>log 2 v\<rfloor> + 1)"
proof -
  have "\<lfloor>log 2 v\<rfloor> = \<lfloor>log 2 v\<rfloor>" ..
  then have "2 powr of_int \<lfloor>log 2 v\<rfloor> \<le> v \<and> v < 2 powr (of_int (\<lfloor>log 2 v\<rfloor> + 1))"
    using assms by (subst (asm) floor_log_eq_powr_iff) simp_all
  then show "2 powr of_int \<lfloor>log 2 v\<rfloor> \<le> v" and "v < 2 powr (of_int \<lfloor>log 2 v\<rfloor> + 1)"
    by simp_all
qed

lemma ulp_exponent_mono:
  assumes "0 < v" "v \<le> w"
  shows "ulp_exponent v \<le> ulp_exponent w"
proof -
  have "log 2 v \<le> log 2 w" using assms by simp
  then have "\<lfloor>log 2 v\<rfloor> \<le> \<lfloor>log 2 w\<rfloor>" by (rule floor_mono)
  then show ?thesis using assms by (simp add: ulp_exponent_def)
qed

text \<open>The scaled value is below 2^53, and the result is at most the next power of two.\<close>

lemma scaled_less:
  assumes "0 < v"
  shows "v / 2 powr of_int (ulp_exponent v) < 2 ^ 53"
proof -
  let ?k = "\<lfloor>log 2 v\<rfloor>"
  have "v < 2 powr (of_int ?k + 1)" using assms by (rule exponent_bounds)
  also have "\<dots> \<le> 2 powr (of_int (ulp_exponent v) + 53)"
    using assms by (simp add: ulp_exponent_def)
  also have "\<dots> = 2 powr of_int (ulp_exponent v) * 2 ^ 53"
    by (simp add: powr_add)
  finally show ?thesis by (simp add: pos_divide_less_eq mult.commute)
qed


lemma double_of_le_pow:
  assumes "0 < v"
  shows "double_of v \<le> 2 powr (of_int (ulp_exponent v) + 53)"
proof -
  let ?u = "(2::real) powr of_int (ulp_exponent v)"
  have "v / ?u \<le> of_int (2 ^ 53)" using scaled_less[OF assms] by simp
  then have "round_half_even (v / ?u) \<le> 2 ^ 53" by (rule rhe_le_int)
  then have "of_int (round_half_even (v / ?u)) \<le> (2 ^ 53 :: real)"
    by (metis of_int_le_iff of_int_numeral of_int_power)
  then have "of_int (round_half_even (v / ?u)) * ?u \<le> 2 ^ 53 * ?u"
    by (intro mult_right_mono) simp_all
  then show ?thesis using assms by (simp add: double_of_def powr_add mult.commute)
qed

lemma double_of_ge_pow:
  assumes "0 < v" and "ulp_exponent v = \<lfloor>log 2 v\<rfloor> - 52"
  shows "2 powr (of_int (ulp_exponent v) + 52) \<le> double_of v"
proof -
  let ?u = "(2::real) powr of_int (ulp_exponent v)"
  have "2 powr (of_int (ulp_exponent v) + 52) \<le> v"
    using exponent_bounds(1)[OF assms(1)] assms(2) by simp
  then have "?u * 2 ^ 52 \<le> v" by (simp add: powr_add)
  then have "of_int (2 ^ 52) \<le> v / ?u" by (simp add: pos_le_divide_eq mult.commute)
  then have "2 ^ 52 \<le> round_half_even (v / ?u)" by (rule rhe_ge_int)
  then have "(2 ^ 52 :: real) \<le> of_int (round_half_even (v / ?u))"
    by (metis of_int_le_iff of_int_numeral of_int_power)
  then have "2 ^ 52 * ?u \<le> of_int (round_half_even (v / ?u)) * ?u"
    by (intro mult_right_mono) simp_all
  moreover have "double_of v = of_int (round_half_even (v / ?u)) * ?u"
    using assms(1) by (simp add: double_of_def)
  moreover have "2 powr (of_int (ulp_exponent v) + 52) = 2 ^ 52 * ?u"
    by (simp add: powr_add)
  ultimately show ?thesis by simp
qed

lemma double_of_mono_pos:
  assumes "0 < v" "v \<le> w"
  shows "double_of v \<le> double_of w"
proof (cases "ulp_exponent v = ulp_exponent w")
  case True
  let ?u = "(2::real) powr of_int (ulp_exponent w)"
  have "v / ?u \<le> w / ?u" using assms by (simp add: divide_right_mono)
  then have "round_half_even (v / ?u) \<le> round_half_even (w / ?u)" by (rule rhe_mono)
  then have "of_int (round_half_even (v / ?u)) * ?u \<le> of_int (round_half_even (w / ?u)) * ?u"
    by (intro mult_right_mono) simp_all
  then show ?thesis using assms True by (simp add: double_of_def)
next
  case False
  then have lt: "ulp_exponent v < ulp_exponent w"
    using ulp_exponent_mono[OF assms] by simp
  have wpos: "0 < w" using assms by simp
  have "- 1022 - 52 \<le> ulp_exponent v" by (simp add: ulp_exponent_def)
  then have "ulp_exponent w \<noteq> - 1022 - 52" using lt by simp
  then have norm: "ulp_exponent w = \<lfloor>log 2 w\<rfloor> - 52"
    using wpos by (auto simp: ulp_exponent_def max_def split: if_splits)
  have "double_of v \<le> 2 powr (of_int (ulp_exponent v) + 53)"
    using assms(1) by (rule double_of_le_pow)
  also have "\<dots> \<le> 2 powr (of_int (ulp_exponent w) + 52)"
    using lt by simp
  also have "\<dots> \<le> double_of w" using wpos norm by (rule double_of_ge_pow)
  finally show ?thesis .
qed

lemma double_of_mono:
  assumes "0 \<le> v" "v \<le> w"
  shows "double_of v \<le> double_of w"
proof (cases "v = 0")
  case True
  then show ?thesis using assms double_of_nonneg[of w] by (simp add: double_of_def)
next
  case False
  then have "0 < v" using assms by simp
  then show ?thesis using assms(2) by (rule double_of_mono_pos)
qed


lemma double_of_eval:
  assumes "0 < v" and "2 ^ 52 \<le> v * 2 ^ p" and "v * 2 ^ p < 2 ^ 53" and "p \<le> 1074"
  shows "double_of v = of_int (round_half_even (v * 2 ^ p)) / 2 ^ p"
proof -
  define k :: int where "k = 52 - int p"
  have pw: "2 powr of_int k = (2 ^ 52 :: real) / 2 ^ p"
    by (simp add: k_def powr_diff powr_realpow)
  have pw1: "2 powr (of_int k + 1) = (2 ^ 53 :: real) / 2 ^ p"
    by (simp add: k_def powr_diff powr_add powr_realpow)
  have "2 powr of_int k \<le> v \<and> v < 2 powr (of_int k + 1)"
    unfolding pw pw1 using assms(2,3) by (simp add: pos_divide_le_eq pos_less_divide_eq)
  then have "\<lfloor>log 2 v\<rfloor> = k"
    using assms(1) by (subst floor_log_eq_powr_iff) simp_all
  then have "ulp_exponent v = - int p"
    using assms(1,4) by (simp add: ulp_exponent_def k_def)
  moreover have "2 powr of_int (- int p) = 1 / (2 ^ p :: real)"
    by (simp add: powr_minus powr_realpow inverse_eq_divide)
  ultimately show ?thesis using assms(1) by (simp add: double_of_def)
qed

lemma double_of_error:
  assumes "0 \<le> v" and "v < 2 ^ n"
  shows "\<bar>double_of v - v\<bar> \<le> 2 ^ n / 2 ^ 54"
proof (cases "v = 0")
  case True
  then show ?thesis by (simp add: double_of_def)
next
  case False
  then have pos: "0 < v" using assms(1) by simp
  let ?u = "(2::real) powr of_int (ulp_exponent v)"
  have "2 powr of_int \<lfloor>log 2 v\<rfloor> \<le> v" using pos by (rule exponent_bounds)
  also have "v < 2 powr of_int (int n)" using assms(2) by (simp add: powr_realpow)
  finally have "\<lfloor>log 2 v\<rfloor> < int n" by simp
  then have "ulp_exponent v \<le> int n - 53" using pos by (simp add: ulp_exponent_def)
  then have "?u \<le> 2 powr of_int (int n - 53)" by simp
  also have "\<dots> = 2 ^ n / 2 ^ 53" by (simp add: powr_diff powr_realpow)
  finally have u: "?u \<le> 2 ^ n / 2 ^ 53" .
  have "\<bar>double_of v - v\<bar> = \<bar>of_int (round_half_even (v / ?u)) - v / ?u\<bar> * ?u"
  proof -
    have "double_of v - v = (of_int (round_half_even (v / ?u)) - v / ?u) * ?u"
      using pos by (simp add: double_of_def algebra_simps)
    then show ?thesis by (simp add: abs_mult)
  qed
  also have "\<dots> \<le> 1 / 2 * ?u"
    by (intro mult_right_mono rhe_error) simp
  also have "\<dots> \<le> 1 / 2 * (2 ^ n / 2 ^ 53)"
    using u by simp
  finally show ?thesis by simp
qed

subsection \<open>Auxiliary facts: the weighted sum in doubles\<close>

lemma lit_03_value: "lit_03 = 5404319552844595 / 2 ^ 54"
  unfolding lit_03_def
  by (subst double_of_eval[where p = 54]) (simp_all add: round_half_even_def)

lemma lit_02_value: "lit_02 = 3602879701896397 / 2 ^ 54"
  unfolding lit_02_def
  by (subst double_of_eval[where p = 55]) (simp_all add: round_half_even_def)

lemma mul_100_03: "mul_double 100 lit_03 = 30"
  unfolding mul_double_def lit_03_value
  by (subst double_of_eval[where p = 48]) (simp_all add: round_half_even_def)

lemma mul_100_02: "mul_double 100 lit_02 = 20"
  unfolding mul_double_def lit_02_value
  by (subst double_of_eval[where p = 48]) (simp_all add: round_half_even_def)

lemma double_of_60: "double_of 60 = 60"
  by (subst double_of_eval[where p = 47]) (simp_all add: round_half_even_def)

lemma double_of_80: "double_of 80 = 80"
  by (subst double_of_eval[where p = 46]) (simp_all add: round_half_even_def)

lemma double_of_100: "double_of 100 = 100"
  by (subst double_of_eval[where p = 46]) (simp_all add: round_half_even_def)

lemma mul_double_bounds:
  assumes "0 \<le> s" "s \<le> 100" "0 \<le> c"
  shows "0 \<le> mul_double s c" and "mul_double s c \<le> mul_double 100 c"
proof -
  show "0 \<le> mul_double s c"
    unfolding mul_double_def using assms by (intro double_of_nonneg) simp
  show "mul_double s c \<le> mul_double 100 c"
    unfolding mul_double_def using assms
    by (intro double_of_mono mult_right_mono) simp_all
qed

lemma add_double_nonneg: "0 \<le> a \<Longrightarrow> 0 \<le> b \<Longrightarrow> 0 \<le> add_double a b"
  unfolding add_double_def by (intro double_of_nonneg) simp

lemma add_double_le:
  assumes "0 \<le> a" "0 \<le> b" "a + b \<le> c" "double_of c = c"
  shows "add_double a b \<le> c"
proof -
  have "double_of (a + b) \<le> double_of c"
    using assms by (intro double_of_mono) simp_all
  then show ?thesis using assms(4) by (simp add: add_double_def)
qed

lemma weightedSum_bounds:
  assumes "0 \<le> e" "e \<le> 100" "0 \<le> r" "r \<le> 100" "0 \<le> k" "k \<le> 100" "0 \<le> a" "a \<le> 100"
  shows "0 \<le> weightedSum e r k a" and "weightedSum e r k a \<le> 100"
proof -
  have c3: "0 \<le> lit_03" and c2: "0 \<le> lit_02"
    by (simp_all add: lit_03_value lit_02_value)
  define p1 where "p1 = mul_double e lit_03"
  define p2 where "p2 = mul_double r lit_03"
  define p3 where "p3 = mul_double k lit_02"
  define p4 where "p4 = mul_double a lit_02"
  have p1: "0 \<le> p1" "p1 \<le> 30"
    using mul_double_bounds[OF assms(1,2) c3] by (simp_all add: p1_def mul_100_03)
  have p2: "0 \<le> p2" "p2 \<le> 30"
    using mul_double_bounds[OF assms(3,4) c3] by (simp_all add: p2_def mul_100_03)
  have p3: "0 \<le> p3" "p3 \<le> 20"
    using mul_double_bounds[OF assms(5,6) c2] by (simp_all add: p3_def mul_100_02)
  have p4: "0 \<le> p4" "p4 \<le> 20"
    using mul_double_bounds[OF assms(7,8) c2] by (simp_all add: p4_def mul_100_02)
  have s1: "0 \<le> add_double p1 p2" "add_double p1 p2 \<le> 60"
  proof -
    show "0 \<le> add_double p1 p2" using p1(1) p2(1) by (rule add_double_nonneg)
    have "p1 + p2 \<le> 60" using p1 p2 by simp
    with p1(1) p2(1) show "add_double p1 p2 \<le> 60" using double_of_60 by (rule add_double_le)
  qed
  have s2: "0 \<le> add_double (add_double p1 p2) p3" "add_double (add_double p1 p2) p3 \<le> 80"
  proof -
    show "0 \<le> add_double (add_double p1 p2) p3" using s1(1) p3(1) by (rule add_double_nonneg)
    have "add_double p1 p2 + p3 \<le> 80" using s1 p3 by simp
    with s1(1) p3(1) show "add_double (add_double p1 p2) p3 \<le> 80"
      using double_of_80 by (rule add_double_le)
  qed
  have w: "weightedSum e r k a = add_double (add_double (add_double p1 p2) p3) p4"
    by (simp add: weightedSum_def p1_def p2_def p3_def p4_def)
  show "0 \<le> weightedSum e r k a"
    unfolding w using s2(1) p4(1) by (rule add_double_nonneg)
  have "add_double (add_double p1 p2) p3 + p4 \<le> 100" using s2 p4 by simp
  with s2(1) p4(1) show "weightedSum e r k a \<le> 100"
    unfolding w using double_of_100 by (rule add_double_le)
qed


lemma weightedSum_100: "weightedSum 100 100 100 100 = 100"
  by (simp add: weightedSum_def mul_100_03 mul_100_02 add_double_def double_of_60 double_of_80
      double_of_100)

lemma weightedSum_0: "weightedSum 0 0 0 0 = 0"
  by (simp add: weightedSum_def mul_double_def add_double_def double_of_def)

lemma weightedSum_close:
  assumes "0 \<le> e" "e \<le> 100" "0 \<le> r" "r \<le> 100" "0 \<le> k" "k \<le> 100" "0 \<le> a" "a \<le> 100"
  shows "\<bar>weightedSum e r k a - (e * 0.3 + r * 0.3 + k * 0.2 + a * 0.2)\<bar> \<le> 1 / 2 ^ 44"
proof -
  have c3: "0 \<le> lit_03" and c2: "0 \<le> lit_02"
    by (simp_all add: lit_03_value lit_02_value)
  define p1 where "p1 = mul_double e lit_03"
  define p2 where "p2 = mul_double r lit_03"
  define p3 where "p3 = mul_double k lit_02"
  define p4 where "p4 = mul_double a lit_02"
  define s1 where "s1 = add_double p1 p2"
  define s2 where "s2 = add_double s1 p3"
  define s3 where "s3 = add_double s2 p4"
  have b1: "0 \<le> p1" "p1 \<le> 30"
    using mul_double_bounds[OF assms(1,2) c3] by (simp_all add: p1_def mul_100_03)
  have b2: "0 \<le> p2" "p2 \<le> 30"
    using mul_double_bounds[OF assms(3,4) c3] by (simp_all add: p2_def mul_100_03)
  have b3: "0 \<le> p3" "p3 \<le> 20"
    using mul_double_bounds[OF assms(5,6) c2] by (simp_all add: p3_def mul_100_02)
  have b4: "0 \<le> p4" "p4 \<le> 20"
    using mul_double_bounds[OF assms(7,8) c2] by (simp_all add: p4_def mul_100_02)
  have t1: "0 \<le> s1" "s1 \<le> 60"
  proof -
    show "0 \<le> s1" unfolding s1_def using b1(1) b2(1) by (rule add_double_nonneg)
    have "p1 + p2 \<le> 60" using b1 b2 by simp
    with b1(1) b2(1) show "s1 \<le> 60" unfolding s1_def using double_of_60 by (rule add_double_le)
  qed
  have t2: "0 \<le> s2" "s2 \<le> 80"
  proof -
    show "0 \<le> s2" unfolding s2_def using t1(1) b3(1) by (rule add_double_nonneg)
    have "s1 + p3 \<le> 80" using t1 b3 by simp
    with t1(1) b3(1) show "s2 \<le> 80" unfolding s2_def using double_of_80 by (rule add_double_le)
  qed
  have e1: "\<bar>p1 - e * lit_03\<bar> \<le> 2 ^ 5 / 2 ^ 54"
    unfolding p1_def mul_double_def using assms(1,2)
    by (intro double_of_error) (simp_all add: lit_03_value)
  have e2: "\<bar>p2 - r * lit_03\<bar> \<le> 2 ^ 5 / 2 ^ 54"
    unfolding p2_def mul_double_def using assms(3,4)
    by (intro double_of_error) (simp_all add: lit_03_value)
  have e3: "\<bar>p3 - k * lit_02\<bar> \<le> 2 ^ 5 / 2 ^ 54"
    unfolding p3_def mul_double_def using assms(5,6)
    by (intro double_of_error) (simp_all add: lit_02_value)
  have e4: "\<bar>p4 - a * lit_02\<bar> \<le> 2 ^ 5 / 2 ^ 54"
    unfolding p4_def mul_double_def using assms(7,8)
    by (intro double_of_error) (simp_all add: lit_02_value)
  have e5: "\<bar>s1 - (p1 + p2)\<bar> \<le> 2 ^ 6 / 2 ^ 54"
    unfolding s1_def add_double_def using b1 b2 by (intro double_of_error) simp_all
  have e6: "\<bar>s2 - (s1 + p3)\<bar> \<le> 2 ^ 7 / 2 ^ 54"
    unfolding s2_def add_double_def using t1 b3 by (intro double_of_error) simp_all
  have e7: "\<bar>s3 - (s2 + p4)\<bar> \<le> 2 ^ 7 / 2 ^ 54"
    unfolding s3_def add_double_def using t2 b4 by (intro double_of_error) simp_all
  have w: "weightedSum e r k a = s3"
    by (simp add: weightedSum_def p1_def p2_def p3_def p4_def s1_def s2_def s3_def)
  have pw: "(2::real) ^ 54 = 18014398509481984" "(2::real) ^ 44 = 17592186044416"
    "(2::real) ^ 5 = 32" "(2::real) ^ 6 = 64" "(2::real) ^ 7 = 128"
    by simp_all
  show ?thesis
    unfolding w using e1 e2 e3 e4 e5 e6 e7 assms
    unfolding lit_03_value lit_02_value pw abs_le_iff
    by linarith
qed

lemma overallScore_tie_example: "overallScore 34 37 36 0 = 28"
proof -
  have p1: "mul_double 34 lit_03 = 5742089524897382 / 2 ^ 49"
    unfolding mul_double_def lit_03_value
    by (subst double_of_eval[where p = 49]) (simp_all add: round_half_even_def)
  have p2: "mul_double 37 lit_03 = 6248744482976563 / 2 ^ 49"
    unfolding mul_double_def lit_03_value
    by (subst double_of_eval[where p = 49]) (simp_all add: round_half_even_def)
  have p3: "mul_double 36 lit_02 = 8106479329266893 / 2 ^ 50"
    unfolding mul_double_def lit_02_value
    by (subst double_of_eval[where p = 50]) (simp_all add: round_half_even_def)
  have p4: "mul_double 0 lit_02 = 0"
    by (simp add: mul_double_def double_of_def)
  have s1: "add_double (5742089524897382 / 2 ^ 49) (6248744482976563 / 2 ^ 49)
            = 5995417003936972 / 2 ^ 48"
    unfolding add_double_def
    by (subst double_of_eval[where p = 48]) (simp_all add: round_half_even_def)
  have s2: "add_double (5995417003936972 / 2 ^ 48) (8106479329266893 / 2 ^ 50)
            = 8022036836253695 / 2 ^ 48"
    unfolding add_double_def
    by (subst double_of_eval[where p = 48]) (simp_all add: round_half_even_def)
  have s3: "add_double (8022036836253695 / 2 ^ 48) 0 = 8022036836253695 / 2 ^ 48"
    unfolding add_double_def
    by (subst double_of_eval[where p = 48]) (simp_all add: round_half_even_def)
  have w: "weightedSum 34 37 36 0 = 8022036836253695 / 2 ^ 48"
    unfolding weightedSum_def p1 p2 p3 p4 s1 s2 s3 ..
  show ?thesis unfolding overallScore_def Math_round_def w by simp
qed

subsection \<open>Auxiliary facts: angles\<close>


lemma atan2_bounds: "- pi < atan2 b a \<and> atan2 b a \<le> pi"
proof -
  have lb: "- (pi / 2) < arctan (b / a)" and ub: "arctan (b / a) < pi / 2"
    by (rule arctan_lbound, rule arctan_ubound)
  have neg: "a < 0 \<Longrightarrow> 0 \<le> b \<Longrightarrow> arctan (b / a) \<le> 0"
    by (simp add: divide_le_0_iff)
  have pos: "a < 0 \<Longrightarrow> b < 0 \<Longrightarrow> 0 < arctan (b / a)"
    by (simp add: divide_neg_neg)
  show ?thesis
    using lb ub neg pos pi_gt_zero unfolding atan2_def by auto
qed

lemma atan2_raised_pos: "0 < b \<Longrightarrow> 0 \<le> a \<Longrightarrow> 0 < atan2 b a"
  by (simp add: atan2_def)

lemma atan2_strict_mono: "0 < a \<Longrightarrow> b' < b \<Longrightarrow> atan2 b' a < atan2 b a"
  by (simp add: atan2_def arctan_less_iff divide_strict_right_mono)

lemma atan2_vertical: "0 < b \<Longrightarrow> atan2 b 0 = pi / 2"
  by (simp add: atan2_def)

lemma atan2_le_half_pi: "0 \<le> a \<Longrightarrow> atan2 b a \<le> pi / 2"
  using arctan_ubound[of "b / a"] pi_gt_zero by (auto simp: atan2_def)

lemma atan2_nonpos: "b \<le> 0 \<Longrightarrow> 0 \<le> a \<Longrightarrow> atan2 b a \<le> 0"
  by (auto simp: atan2_def divide_le_0_iff)

lemma degrees_nonpos: "t \<le> 0 \<Longrightarrow> t * 180 / pi \<le> 0"
  using pi_gt_zero by (simp add: divide_le_0_iff mult_le_0_iff)

lemma degrees_pos: "0 < t \<Longrightarrow> 0 < t * 180 / pi"
  using pi_gt_zero by simp

lemma degrees_strict_mono: "t' < t \<Longrightarrow> t' * 180 / pi < t * 180 / pi"
  using pi_gt_zero by (simp add: divide_strict_right_mono)

lemma degrees_mono: "t' \<le> t \<Longrightarrow> t' * 180 / pi \<le> t * 180 / pi"
  using pi_gt_zero by (simp add: divide_right_mono)

lemma degrees_half_pi: "pi / 2 * 180 / pi = 90"
  using pi_gt_zero by simp

lemma degrees_bounds:
  assumes "- pi < u" "u \<le> pi" "- pi < v" "v \<le> pi"
  shows "\<bar>(u - v) * 180 / pi\<bar> < 360"
proof -
  have "\<bar>u - v\<bar> < 2 * pi" using assms by linarith
  then have "\<bar>u - v\<bar> * 180 < (2 * pi) * 180" by (rule mult_strict_right_mono) simp
  then have "\<bar>u - v\<bar> * 180 < 360 * pi" by simp
  then have "\<bar>u - v\<bar> * 180 / pi < 360"
    using pi_gt_zero by (simp add: pos_divide_less_eq)
  moreover have "\<bar>(u - v) * 180 / pi\<bar> = \<bar>u - v\<bar> * 180 / pi"
    using pi_gt_zero by (simp only: abs_divide abs_mult abs_numeral abs_of_pos)
  ultimately show ?thesis by simp
qed

lemma calculateAngle_value:
  "calculateAngle (Some p1) (Some p2) (Some p3) =
     Inr (let t = \<bar>(atan2 (lm_y p3 - lm_y p2) (lm_x p3 - lm_x p2)
                    - atan2 (lm_y p1 - lm_y p2) (lm_x p1 - lm_x p2)) * 180 / pi\<bar>
          in if t > 180 then 360 - t else t)"
  by (simp add: calculateAngle_def Let_def)

lemma calculateAngle_None:
  "p1 = None \<or> p2 = None \<or> p3 = None \<Longrightarrow> calculateAngle p1 p2 p3 = Inl TypeError"
  by (auto simp: calculateAngle_def split: option.splits)

lemma calculateReleaseAngle_value:
  "calculateReleaseAngle (Some sh) (Some wr) =
     Inr (max 0 (atan2 (lm_y sh - lm_y wr) \<bar>lm_x sh - lm_x wr\<bar> * 180 / pi))"
  by (simp add: calculateReleaseAngle_def Let_def)

subsection \<open>Auxiliary facts: the example frames\<close>

lemma elem_at_example:
  "elem_at example_pose 11 = Some \<lparr>lm_x = 3 / 5, lm_y = 41 / 100\<rparr>"
  "elem_at example_pose 12 = Some \<lparr>lm_x = 2 / 5, lm_y = 2 / 5\<rparr>"
  "elem_at example_pose 14 = Some \<lparr>lm_x = 3 / 5, lm_y = 2 / 5\<rparr>"
  "elem_at example_pose 16 = Some \<lparr>lm_x = 3 / 5, lm_y = 1 / 5\<rparr>"
  "elem_at example_pose 24 = Some \<lparr>lm_x = 3 / 10, lm_y = 13 / 20\<rparr>"
  "elem_at example_pose 26 = Some \<lparr>lm_x = 2 / 5, lm_y = 3 / 4\<rparr>"
  "elem_at example_pose 28 = Some \<lparr>lm_x = 2 / 5, lm_y = 9 / 10\<rparr>"
  by (simp_all add: elem_at_def example_pose_def)

lemma frameMetrics_example: "frameMetrics example_pose = Inr example_metrics"
  by (simp add: frameMetrics_def elem_at_example calculateAngle_def calculateReleaseAngle_def
      calculateAlignment_def atan2_def arctan_one example_metrics_def Let_def)

lemma frameMetrics_still: "frameMetrics still_pose = Inr still_metrics"
  by (simp add: frameMetrics_def calculateAngle_def calculateReleaseAngle_def elem_at_def
      calculateAlignment_def atan2_def still_metrics_def still_pose_def Let_def)

lemma drawPose_ok: "(\<forall>i < length lms. lms ! i \<noteq> None) \<Longrightarrow> drawPose lms = Inr ()"
  by (auto simp: drawPose_def list_ex_iff)

lemma drawPose_undefined:
  "i < length lms \<Longrightarrow> 10 < i \<Longrightarrow> i < 29 \<Longrightarrow> lms ! i = None \<Longrightarrow> drawPose lms = Inl TypeError"
  by (auto simp: drawPose_def list_ex_iff)

lemma drawPose_example: "drawPose example_pose = Inr ()"
  by (rule drawPose_ok) (auto simp: example_pose_def nth_list_update)

lemma drawPose_still: "drawPose still_pose = Inr ()"
  by (rule drawPose_ok) (simp add: still_pose_def)

lemma rawMetrics_example: "rawMetrics \<lparr>poseLandmarks = Some example_pose\<rparr> = Some example_metrics"
  by (simp add: rawMetrics_def drawPose_example frameMetrics_example)

lemma rawMetrics_still: "rawMetrics \<lparr>poseLandmarks = Some still_pose\<rparr> = Some still_metrics"
  by (simp add: rawMetrics_def drawPose_still frameMetrics_still)


subsection \<open>Auxiliary facts: queues and frames\<close>

lemma foldl_plus_sum: "foldl (+) a q = a + sum_list (q :: real list)"
  by (induction q arbitrary: a) simp_all

lemma average_sum: "q \<noteq> [] \<Longrightarrow> average q = sum_list q / real (length q)"
  by (simp add: average_def foldl_plus_sum)

lemma average_single: "average [v] = v"
  by (simp add: average_def)

lemma onPoseResults_valid:
  "rawMetrics res = Some m \<Longrightarrow>
   onPoseResults res s =
     (Returned, s\<lparr>data := keepLast30 (pushMetrics m (data s)),
                  ui := report (keepLast30 (pushMetrics m (data s))) (ui s),
                  frameCount := frameCount s + 1\<rparr>)"
  by (auto simp: rawMetrics_def onPoseResults_def analyzeShootingForm_def Let_def
      split: option.splits sum.splits)

lemma step_valid_data:
  "rawMetrics res = Some m \<Longrightarrow> data (step s (Frame res)) = keepLast30 (pushMetrics m (data s))"
  by (simp add: onPoseResults_valid)

lemma onPoseResults_data_cases:
  "data (snd (onPoseResults res s)) = data s
   \<or> (\<exists>m. data (snd (onPoseResults res s)) = keepLast30 (pushMetrics m (data s)))"
  by (auto simp: onPoseResults_def analyzeShootingForm_def Let_def
      split: option.splits sum.splits)




lemma sameLengths_keep_push: "sameLengths d \<Longrightarrow> sameLengths (keepLast30 (pushMetrics m d))"
  by (simp add: sameLengths_def keepLast30_def pushMetrics_def)

lemma sameLengths_reset: "sameLengths (data (resetStats s))"
  by (simp add: sameLengths_def resetStats_def Let_def)

lemma sameLengths_step: "sameLengths (data s) \<Longrightarrow> sameLengths (data (step s ev))"
proof (cases ev)
  case (Frame res)
  assume "sameLengths (data s)"
  then show ?thesis
    using onPoseResults_data_cases[of res s] Frame by (auto simp: sameLengths_keep_push)
next
  case Reset
  then show ?thesis by (simp add: sameLengths_reset)
qed

lemma sameLengths_run: "sameLengths (data s) \<Longrightarrow> sameLengths (data (run evs s))"
  unfolding run_def by (induction evs arbitrary: s) (simp_all add: sameLengths_step)

lemma keep_push_evict:
  "sameLengths d \<Longrightarrow>
   keepLast30 (pushMetrics m d) =
     \<lparr>elbowAngles = spec_evict (elbowAngles d @ [raw_elbow m]),
      releaseHeights = spec_evict (releaseHeights d @ [raw_release m]),
      kneeAngles = spec_evict (kneeAngles d @ [raw_knee m]),
      alignmentScores = spec_evict (alignmentScores d @ [raw_alignment m])\<rparr>"
  by (simp add: sameLengths_def keepLast30_def pushMetrics_def spec_evict_def)

lemma spec_evict_lastN:
  assumes "length q \<le> 30"
  shows "spec_evict (q @ [v]) = lastN 30 (q @ [v])"
proof (cases "length q = 30")
  case True
  then have "q \<noteq> []" by auto
  then show ?thesis using True by (simp add: spec_evict_def lastN_def drop_Suc)
next
  case False
  then show ?thesis using assms by (simp add: spec_evict_def lastN_def)
qed

lemma lastN_lastN_append: "lastN n (lastN n q @ r) = lastN n (q @ r)"
proof (cases "length q \<le> n")
  case True
  then show ?thesis by (simp add: lastN_def)
next
  case False
  then have "length q + length r - (length q - n + n) + (length q - n) = length q + length r - n"
    by simp
  then show ?thesis using False by (simp add: lastN_def)
qed

lemma lastN_31: "length q \<le> 30 \<Longrightarrow> length r = 31 \<Longrightarrow> lastN 30 (q @ r) = tl r"
  by (cases r) (simp_all add: lastN_def)

lemma windowed_initial: "windowed (data initial_state)"
  by (simp add: windowed_def sameLengths_def initial_state_def)

lemma windowed_keep_push: "windowed d \<Longrightarrow> windowed (keepLast30 (pushMetrics m d))"
  by (auto simp: windowed_def sameLengths_def keepLast30_def pushMetrics_def)

lemma windowed_step: "windowed (data s) \<Longrightarrow> windowed (data (step s ev))"
proof (cases ev)
  case (Frame res)
  assume "windowed (data s)"
  then show ?thesis
    using onPoseResults_data_cases[of res s] Frame by (auto simp: windowed_keep_push)
next
  case Reset
  then show ?thesis by (simp add: windowed_def sameLengths_def resetStats_def Let_def)
qed

lemma windowed_run: "windowed (data s) \<Longrightarrow> windowed (data (run evs s))"
  unfolding run_def by (induction evs arbitrary: s) (simp_all add: windowed_step)

lemma keep_push_lastN:
  "windowed d \<Longrightarrow>
   keepLast30 (pushMetrics m d) =
     \<lparr>elbowAngles = lastN 30 (elbowAngles d @ [raw_elbow m]),
      releaseHeights = lastN 30 (releaseHeights d @ [raw_release m]),
      kneeAngles = lastN 30 (kneeAngles d @ [raw_knee m]),
      alignmentScores = lastN 30 (alignmentScores d @ [raw_alignment m])\<rparr>"
  by (simp add: windowed_def keep_push_evict spec_evict_lastN sameLengths_def)

text \<open>
  The sliding window in closed form: after any run of valid frames each queue holds the
  last 30 values of its old contents followed by the new raw values.
\<close>

lemma run_valid_frames:
  "windowed (data s) \<Longrightarrow> map rawMetrics rs = map Some ms \<Longrightarrow>
   data (run (map Frame rs) s) =
     \<lparr>elbowAngles = lastN 30 (elbowAngles (data s) @ map raw_elbow ms),
      releaseHeights = lastN 30 (releaseHeights (data s) @ map raw_release ms),
      kneeAngles = lastN 30 (kneeAngles (data s) @ map raw_knee ms),
      alignmentScores = lastN 30 (alignmentScores (data s) @ map raw_alignment ms)\<rparr>"
proof (induction rs arbitrary: s ms)
  case Nil
  then show ?case by (simp add: run_def lastN_def windowed_def sameLengths_def)
next
  case (Cons r rs)
  then obtain m ms' where ms: "ms = m # ms'" and r: "rawMetrics r = Some m"
    and rest: "map rawMetrics rs = map Some ms'"
    by (cases ms) auto
  let ?s = "step s (Frame r)"
  have d: "data ?s = keepLast30 (pushMetrics m (data s))"
    using r by (rule step_valid_data)
  have w: "windowed (data ?s)"
    unfolding d using Cons.prems(1) by (rule windowed_keep_push)
  have "data (run (map Frame (r # rs)) s) = data (run (map Frame rs) ?s)"
    by (simp add: run_def)
  also have "\<dots> = \<lparr>elbowAngles = lastN 30 (elbowAngles (data ?s) @ map raw_elbow ms'),
      releaseHeights = lastN 30 (releaseHeights (data ?s) @ map raw_release ms'),
      kneeAngles = lastN 30 (kneeAngles (data ?s) @ map raw_knee ms'),
      alignmentScores = lastN 30 (alignmentScores (data ?s) @ map raw_alignment ms')\<rparr>"
    using w rest by (rule Cons.IH)
  finally show ?case
    unfolding d keep_push_lastN[OF Cons.prems(1)] ms
    by (simp add: lastN_lastN_append)
qed

lemma data_reset:
  "data (resetStats s) =
     \<lparr>elbowAngles = [], releaseHeights = [], kneeAngles = [], alignmentScores = []\<rparr>"
  by (simp add: resetStats_def Let_def)

lemma keep_push_empty:
  "keepLast30 (pushMetrics m
      \<lparr>elbowAngles = [], releaseHeights = [], kneeAngles = [], alignmentScores = []\<rparr>)
     = \<lparr>elbowAngles = [raw_elbow m], releaseHeights = [raw_release m],
        kneeAngles = [raw_knee m], alignmentScores = [raw_alignment m]\<rparr>"
  by (simp add: keepLast30_def pushMetrics_def)

lemma no_detection_step:
  "step s (Frame \<lparr>poseLandmarks = None\<rparr>) = s\<lparr>ui := (ui s)\<lparr>form_feedback := NoPersonDetected\<rparr>\<rparr>"
  by (simp add: onPoseResults_def)

lemma no_detection_run:
  "run (replicate n (Frame \<lparr>poseLandmarks = None\<rparr>)) s =
     (if n = 0 then s else s\<lparr>ui := (ui s)\<lparr>form_feedback := NoPersonDetected\<rparr>\<rparr>)"
proof (induction n arbitrary: s)
  case 0
  show ?case by (simp add: run_def)
next
  case (Suc n)
  have "run (replicate (Suc n) (Frame \<lparr>poseLandmarks = None\<rparr>)) s
        = run (replicate n (Frame \<lparr>poseLandmarks = None\<rparr>)) (step s (Frame \<lparr>poseLandmarks = None\<rparr>))"
    by (simp add: run_def)
  then show ?case unfolding Suc.IH no_detection_step by simp
qed

subsection \<open>Auxiliary facts: what a frame writes to the page\<close>

lemma report_displays:
  "elbow_angle (report d p) = Shown (Math_round (average (elbowAngles d)))"
  "release_height (report d p) = Shown (Math_round (average (releaseHeights d)))"
  "knee_angle (report d p) = Shown (Math_round (average (kneeAngles d)))"
  "alignment_score (report d p) = Shown (Math_round (average (alignmentScores d)))"
  by (simp_all add: report_def Let_def updateStatusMessages_def updateFeedback_def
        updateProgressBars_def)

lemma report_overall:
  "overall_score (report d p) =
     Shown (overallScore (scoreElbowAngle (average (elbowAngles d)))
                         (scoreReleaseHeight (average (releaseHeights d)))
                         (scoreKneeAngle (average (kneeAngles d)))
                         (average (alignmentScores d)))"
  by (simp add: report_def Let_def updateStatusMessages_def updateFeedback_def
        updateProgressBars_def)

lemma feedback_of_updateFeedback:
  "form_feedback (updateFeedback ov e r k a p) =
     (if 85 \<le> ov then Excellent else if 70 \<le> ov then Good else if 50 \<le> ov then Fair
      else NeedsImprovement)"
  by (simp add: updateFeedback_def)

lemma statuses_of_updateStatusMessages:
  "elbow_status (updateStatusMessages el rl kn al p) =
     Some (if 85 \<le> el \<and> el \<le> 95 then PerfectElbow else if el < 85 then RaiseElbow else LowerElbow)"
  "release_status (updateStatusMessages el rl kn al p) =
     Some (if 45 \<le> rl \<and> rl \<le> 60 then OptimalRelease else if rl < 45 then ReleaseTooLow
           else ReleaseTooHigh)"
  "knee_status (updateStatusMessages el rl kn al p) =
     Some (if 100 \<le> kn \<and> kn \<le> 130 then GoodKneeBend else if kn < 100 then BendKneesMore
           else KneesTooBent)"
  "alignment_status (updateStatusMessages el rl kn al p) =
     Some (if 90 \<le> al then PerfectAlignment else CheckShoulderLevel)"
  by (simp_all add: updateStatusMessages_def Let_def)

lemma report_labels:
  "form_feedback (report d p) =
     form_feedback (updateFeedback
        (overallScore (scoreElbowAngle (average (elbowAngles d)))
                      (scoreReleaseHeight (average (releaseHeights d)))
                      (scoreKneeAngle (average (kneeAngles d)))
                      (average (alignmentScores d))) 0 0 0 0 p)"
  "elbow_status (report d p) =
     elbow_status (updateStatusMessages (average (elbowAngles d)) (average (releaseHeights d))
        (average (kneeAngles d)) (average (alignmentScores d)) p)"
  "release_status (report d p) =
     release_status (updateStatusMessages (average (elbowAngles d)) (average (releaseHeights d))
        (average (kneeAngles d)) (average (alignmentScores d)) p)"
  "knee_status (report d p) =
     knee_status (updateStatusMessages (average (elbowAngles d)) (average (releaseHeights d))
        (average (kneeAngles d)) (average (alignmentScores d)) p)"
  "alignment_status (report d p) =
     alignment_status (updateStatusMessages (average (elbowAngles d)) (average (releaseHeights d))
        (average (kneeAngles d)) (average (alignmentScores d)) p)"
  by (simp_all add: report_def Let_def statuses_of_updateStatusMessages feedback_of_updateFeedback
      updateStatusMessages_def)

subsection \<open>Frames with a missing joint\<close>


subsection \<open>The sliding window\<close>

text \<open>
  Claim C2. Every state a session can reach has four queues of one length, at most 30.
  From such a state a valid frame returns normally, each queue becomes its old contents
  with the frame's raw value appended and the oldest value evicted if that made it longer
  than 30, and no queue is longer than 30 afterwards. After 31 consecutive valid frames
  the queues hold exactly the raw values of the last 30 of them, whatever the first frame
  and the earlier contents were, and each smoothed value is the sum of those 30 over 30.
\<close>

theorem sliding_window:
  "windowed (data (run evs initial_state))
   \<and> (windowed (data s) \<longrightarrow>
       (rawMetrics r = Some m \<longrightarrow>
            fst (onPoseResults r s) = Returned
            \<and> data (snd (onPoseResults r s)) =
                \<lparr>elbowAngles = spec_evict (elbowAngles (data s) @ [raw_elbow m]),
                 releaseHeights = spec_evict (releaseHeights (data s) @ [raw_release m]),
                 kneeAngles = spec_evict (kneeAngles (data s) @ [raw_knee m]),
                 alignmentScores = spec_evict (alignmentScores (data s) @ [raw_alignment m])\<rparr>
            \<and> length (elbowAngles (data (snd (onPoseResults r s)))) \<le> 30
            \<and> length (releaseHeights (data (snd (onPoseResults r s)))) \<le> 30
            \<and> length (kneeAngles (data (snd (onPoseResults r s)))) \<le> 30
            \<and> length (alignmentScores (data (snd (onPoseResults r s)))) \<le> 30)
       \<and> (map rawMetrics rs = map Some ms \<and> length rs = 31 \<longrightarrow>
            data (run (map Frame rs) s) =
                \<lparr>elbowAngles = map raw_elbow (tl ms),
                 releaseHeights = map raw_release (tl ms),
                 kneeAngles = map raw_knee (tl ms),
                 alignmentScores = map raw_alignment (tl ms)\<rparr>
            \<and> average (elbowAngles (data (run (map Frame rs) s)))
                = sum_list (map raw_elbow (tl ms)) / 30
            \<and> average (releaseHeights (data (run (map Frame rs) s)))
                = sum_list (map raw_release (tl ms)) / 30
            \<and> average (kneeAngles (data (run (map Frame rs) s)))
                = sum_list (map raw_knee (tl ms)) / 30
            \<and> average (alignmentScores (data (run (map Frame rs) s)))
                = sum_list (map raw_alignment (tl ms)) / 30))"
proof (intro conjI impI)
  show "windowed (data (run evs initial_state))"
    using windowed_initial by (rule windowed_run)
next
  assume win: "windowed (data s)" and r: "rawMetrics r = Some m"
  have sl: "sameLengths (data s)"
    using win by (simp add: windowed_def)
  have d: "data (snd (onPoseResults r s)) = keepLast30 (pushMetrics m (data s))"
    using r by (simp add: onPoseResults_valid)
  show "fst (onPoseResults r s) = Returned"
    using r by (simp add: onPoseResults_valid)
  show "data (snd (onPoseResults r s)) =
                \<lparr>elbowAngles = spec_evict (elbowAngles (data s) @ [raw_elbow m]),
                 releaseHeights = spec_evict (releaseHeights (data s) @ [raw_release m]),
                 kneeAngles = spec_evict (kneeAngles (data s) @ [raw_knee m]),
                 alignmentScores = spec_evict (alignmentScores (data s) @ [raw_alignment m])\<rparr>"
    unfolding d using sl by (rule keep_push_evict)
  have w: "windowed (keepLast30 (pushMetrics m (data s)))"
    using win by (rule windowed_keep_push)
  show "length (elbowAngles (data (snd (onPoseResults r s)))) \<le> 30"
    "length (releaseHeights (data (snd (onPoseResults r s)))) \<le> 30"
    "length (kneeAngles (data (snd (onPoseResults r s)))) \<le> 30"
    "length (alignmentScores (data (snd (onPoseResults r s)))) \<le> 30"
    unfolding d using w by (simp_all add: windowed_def sameLengths_def)
next
  assume win: "windowed (data s)"
    and h: "map rawMetrics rs = map Some ms \<and> length rs = 31"
  then have len: "length ms = 31" by (metis length_map)
  have q: "length (elbowAngles (data s)) \<le> 30" "length (releaseHeights (data s)) \<le> 30"
    "length (kneeAngles (data s)) \<le> 30" "length (alignmentScores (data s)) \<le> 30"
    using win by (simp_all add: windowed_def sameLengths_def)
  have d: "data (run (map Frame rs) s) =
     \<lparr>elbowAngles = lastN 30 (elbowAngles (data s) @ map raw_elbow ms),
      releaseHeights = lastN 30 (releaseHeights (data s) @ map raw_release ms),
      kneeAngles = lastN 30 (kneeAngles (data s) @ map raw_knee ms),
      alignmentScores = lastN 30 (alignmentScores (data s) @ map raw_alignment ms)\<rparr>"
    using win h by (intro run_valid_frames) simp_all
  show e: "data (run (map Frame rs) s) =
                \<lparr>elbowAngles = map raw_elbow (tl ms),
                 releaseHeights = map raw_release (tl ms),
                 kneeAngles = map raw_knee (tl ms),
                 alignmentScores = map raw_alignment (tl ms)\<rparr>"
    unfolding d using q len by (simp add: lastN_31 map_tl)
  have l30: "length (tl ms) = 30" using len by simp
  have ne: "tl ms \<noteq> []" using len by (cases ms) auto
  show "average (elbowAngles (data (run (map Frame rs) s)))
          = sum_list (map raw_elbow (tl ms)) / 30"
    unfolding e using ne l30 by (simp add: average_sum)
  show "average (releaseHeights (data (run (map Frame rs) s)))
          = sum_list (map raw_release (tl ms)) / 30"
    unfolding e using ne l30 by (simp add: average_sum)
  show "average (kneeAngles (data (run (map Frame rs) s)))
          = sum_list (map raw_knee (tl ms)) / 30"
    unfolding e using ne l30 by (simp add: average_sum)
  show "average (alignmentScores (data (run (map Frame rs) s)))
          = sum_list (map raw_alignment (tl ms)) / 30"
    unfolding e using ne l30 by (simp add: average_sum)
qed

text \<open>
  One example frame on the initial state; and the still pose (elbow 0) followed by 30
  example frames (elbow 90): the elbow queue is thirty times 90 and its mean is 90.
\<close>

theorem sliding_window_witness:
  "windowed (data initial_state)
   \<and> rawMetrics \<lparr>poseLandmarks = Some example_pose\<rparr> = Some example_metrics
   \<and> data (snd (onPoseResults \<lparr>poseLandmarks = Some example_pose\<rparr> initial_state)) =
       \<lparr>elbowAngles = [90], releaseHeights = [45], kneeAngles = [135], alignmentScores = [90]\<rparr>
   \<and> map rawMetrics (\<lparr>poseLandmarks = Some still_pose\<rparr>
                        # replicate 30 \<lparr>poseLandmarks = Some example_pose\<rparr>)
       = map Some (still_metrics # replicate 30 example_metrics)
   \<and> length (\<lparr>poseLandmarks = Some still_pose\<rparr>
                        # replicate 30 \<lparr>poseLandmarks = Some example_pose\<rparr>) = 31
   \<and> elbowAngles (data (run (map Frame (\<lparr>poseLandmarks = Some still_pose\<rparr>
                        # replicate 30 \<lparr>poseLandmarks = Some example_pose\<rparr>)) initial_state))
       = replicate 30 90
   \<and> average (elbowAngles (data (run (map Frame (\<lparr>poseLandmarks = Some still_pose\<rparr>
                        # replicate 30 \<lparr>poseLandmarks = Some example_pose\<rparr>)) initial_state)))
       = 90"
proof -
  let ?ex = "\<lparr>poseLandmarks = Some example_pose\<rparr>"
  let ?rs = "\<lparr>poseLandmarks = Some still_pose\<rparr> # replicate 30 ?ex"
  let ?ms = "still_metrics # replicate 30 example_metrics"
  have h1: "rawMetrics ?ex = Some example_metrics" by (rule rawMetrics_example)
  have h2: "map rawMetrics ?rs = map Some ?ms"
    by (simp add: rawMetrics_example rawMetrics_still)
  have h3: "length ?rs = 31" by simp
  note th = sliding_window[where s = initial_state and r = ?ex and m = example_metrics
      and rs = ?rs and ms = ?ms, THEN conjunct2, THEN mp, OF windowed_initial]
  note one = th[THEN conjunct1, THEN mp, OF h1]
  note many = th[THEN conjunct2, THEN mp, OF conjI[OF h2 h3]]
  have a: "data (snd (onPoseResults ?ex initial_state)) =
       \<lparr>elbowAngles = [90], releaseHeights = [45], kneeAngles = [135], alignmentScores = [90]\<rparr>"
    unfolding one[THEN conjunct2, THEN conjunct1]
    by (simp add: spec_evict_def initial_state_def example_metrics_def)
  have b: "elbowAngles (data (run (map Frame ?rs) initial_state)) = replicate 30 90"
    unfolding many[THEN conjunct1] by (simp add: example_metrics_def)
  have c: "average (elbowAngles (data (run (map Frame ?rs) initial_state))) = 90"
    unfolding many[THEN conjunct2, THEN conjunct1]
    by (simp add: example_metrics_def sum_list_replicate)
  show ?thesis using windowed_initial h1 h2 h3 a b c by (intro conjI)
qed

subsection \<open>Scoring\<close>

text \<open>
  Claim C3. The point checks of the spec hold, each scoring function equals the piecewise
  law of the spec's table, the alignment value of a frame is
  \<open>max 0 (100 - 1000 * |difference of the shoulders' y|)\<close> (50 for a difference of 0.05,
  whichever shoulder is lower), and the alignment score of a frame is the smoothed
  alignment value unchanged.
\<close>

theorem scoring_laws:
  "scoreElbowAngle 90 = 100 \<and> scoreElbowAngle 70 = 30
   \<and> scoreReleaseHeight 50 = 100 \<and> scoreReleaseHeight 30 = 30 / 45 * 100
   \<and> scoreKneeAngle 115 = 100
   \<and> calculateAlignment (Some \<lparr>lm_x = a, lm_y = b + 0.05\<rparr>) (Some \<lparr>lm_x = c, lm_y = b\<rparr>) = Inr 50
   \<and> calculateAlignment (Some \<lparr>lm_x = a, lm_y = b\<rparr>) (Some \<lparr>lm_x = c, lm_y = b + 0.05\<rparr>) = Inr 50
   \<and> scoreElbowAngle angle = spec_elbowScore angle
   \<and> scoreReleaseHeight angle = spec_releaseScore angle
   \<and> scoreKneeAngle angle = spec_kneeScore angle
   \<and> calculateAlignment (Some l) (Some r) = Inr (spec_alignmentScore (lm_y l - lm_y r))
   \<and> alignment_bar (report d p) = Some (average (alignmentScores d))"
proof -
  have e: "scoreElbowAngle angle = spec_elbowScore angle"
    by (simp add: scoreElbowAngle_def spec_elbowScore_def Let_def mult.commute)
  have r: "scoreReleaseHeight angle = spec_releaseScore angle"
    by (simp add: scoreReleaseHeight_def spec_releaseScore_def mult.commute)
  have k: "scoreKneeAngle angle = spec_kneeScore angle"
    by (simp add: scoreKneeAngle_def spec_kneeScore_def mult.commute)
  have al: "calculateAlignment (Some l) (Some r) = Inr (spec_alignmentScore (lm_y l - lm_y r))"
    by (simp add: calculateAlignment_def spec_alignmentScore_def Let_def mult.commute)
  have bar: "alignment_bar (report d p) = Some (average (alignmentScores d))"
    by (simp add: report_def Let_def updateStatusMessages_def updateFeedback_def
        updateProgressBars_def)
  have p1: "scoreElbowAngle 90 = 100" "scoreElbowAngle 70 = 30"
    by (simp_all add: scoreElbowAngle_def)
  have p2: "scoreReleaseHeight 50 = 100" "scoreReleaseHeight 30 = 30 / 45 * 100"
    by (simp_all add: scoreReleaseHeight_def)
  have p3: "scoreKneeAngle 115 = 100" by (simp add: scoreKneeAngle_def)
  have p4: "calculateAlignment (Some \<lparr>lm_x = a, lm_y = b + 0.05\<rparr>) (Some \<lparr>lm_x = c, lm_y = b\<rparr>) = Inr 50"
    "calculateAlignment (Some \<lparr>lm_x = a, lm_y = b\<rparr>) (Some \<lparr>lm_x = c, lm_y = b + 0.05\<rparr>) = Inr 50"
    by (simp_all add: calculateAlignment_def)
  show ?thesis using e r k al bar p1 p2 p3 p4 by simp
qed

subsection \<open>The composite score\<close>

text \<open>
  Claim C4, as the code has it. The composite score is \<^verbatim>\<open>Math.round\<close> of the weighted
  sum computed in double arithmetic, and it is what a frame writes as the overall score.
  It is 100 for four scores of 100 and 0 for four of 0. For four scores between 0 and 100
  it lies between 0 and 100, the computed sum is within \<open>2 ^ -44\<close> of the exact weighted
  sum, and so the composite score lies between the roundings of the exact sum less
  \<open>2 ^ -44\<close> and plus \<open>2 ^ -44\<close>: it is the rounding of the exact sum unless that sum is
  within \<open>2 ^ -44\<close> of a tie.
\<close>

theorem overallScore_bounded:
  "overallScore e r k a = Math_round (weightedSum e r k a)
   \<and> overall_score (report d p) =
       Shown (overallScore (scoreElbowAngle (average (elbowAngles d)))
                           (scoreReleaseHeight (average (releaseHeights d)))
                           (scoreKneeAngle (average (kneeAngles d)))
                           (average (alignmentScores d)))
   \<and> overallScore 100 100 100 100 = 100 \<and> overallScore 0 0 0 0 = 0
   \<and> (0 \<le> e \<and> e \<le> 100 \<and> 0 \<le> r \<and> r \<le> 100 \<and> 0 \<le> k \<and> k \<le> 100 \<and> 0 \<le> a \<and> a \<le> 100
        \<longrightarrow> 0 \<le> overallScore e r k a \<and> overallScore e r k a \<le> 100
            \<and> \<bar>weightedSum e r k a - (e * 0.30 + r * 0.30 + k * 0.20 + a * 0.20)\<bar> \<le> 1 / 2 ^ 44
            \<and> round (e * 0.30 + r * 0.30 + k * 0.20 + a * 0.20 - 1 / 2 ^ 44)
                 \<le> overallScore e r k a
            \<and> overallScore e r k a
                 \<le> round (e * 0.30 + r * 0.30 + k * 0.20 + a * 0.20 + 1 / 2 ^ 44))"
proof (intro conjI impI)
  show "overallScore e r k a = Math_round (weightedSum e r k a)"
    by (simp add: overallScore_def)
  show "overall_score (report d p) =
       Shown (overallScore (scoreElbowAngle (average (elbowAngles d)))
                           (scoreReleaseHeight (average (releaseHeights d)))
                           (scoreKneeAngle (average (kneeAngles d)))
                           (average (alignmentScores d)))"
    by (rule report_overall)
  show "overallScore 100 100 100 100 = 100"
    by (simp add: overallScore_def Math_round_def weightedSum_100)
  show "overallScore 0 0 0 0 = 0"
    by (simp add: overallScore_def Math_round_def weightedSum_0)
next
  assume h: "0 \<le> e \<and> e \<le> 100 \<and> 0 \<le> r \<and> r \<le> 100 \<and> 0 \<le> k \<and> k \<le> 100 \<and> 0 \<le> a \<and> a \<le> 100"
  then have b: "0 \<le> e" "e \<le> 100" "0 \<le> r" "r \<le> 100" "0 \<le> k" "k \<le> 100" "0 \<le> a" "a \<le> 100"
    by simp_all
  have lo: "0 \<le> weightedSum e r k a" and hi: "weightedSum e r k a \<le> 100"
    using b by (rule weightedSum_bounds)+
  show "0 \<le> overallScore e r k a"
    unfolding overallScore_def Math_round_def using lo by simp
  show "overallScore e r k a \<le> 100"
    unfolding overallScore_def Math_round_def using hi by (simp add: floor_le_iff)
  have close: "\<bar>weightedSum e r k a - (e * 0.3 + r * 0.3 + k * 0.2 + a * 0.2)\<bar> \<le> 1 / 2 ^ 44"
    using b by (rule weightedSum_close)
  then show "\<bar>weightedSum e r k a - (e * 0.30 + r * 0.30 + k * 0.20 + a * 0.20)\<bar> \<le> 1 / 2 ^ 44"
    by simp
  have "e * 0.3 + r * 0.3 + k * 0.2 + a * 0.2 - 1 / 2 ^ 44 + 1 / 2 \<le> weightedSum e r k a + 1 / 2"
    using close unfolding abs_le_iff by linarith
  then have "\<lfloor>e * 0.3 + r * 0.3 + k * 0.2 + a * 0.2 - 1 / 2 ^ 44 + 1 / 2\<rfloor>
      \<le> \<lfloor>weightedSum e r k a + 1 / 2\<rfloor>"
    by (rule floor_mono)
  then show "round (e * 0.30 + r * 0.30 + k * 0.20 + a * 0.20 - 1 / 2 ^ 44) \<le> overallScore e r k a"
    by (simp add: overallScore_def Math_round_def round_def)
  have "weightedSum e r k a + 1 / 2 \<le> e * 0.3 + r * 0.3 + k * 0.2 + a * 0.2 + 1 / 2 ^ 44 + 1 / 2"
    using close unfolding abs_le_iff by linarith
  then have "\<lfloor>weightedSum e r k a + 1 / 2\<rfloor>
      \<le> \<lfloor>e * 0.3 + r * 0.3 + k * 0.2 + a * 0.2 + 1 / 2 ^ 44 + 1 / 2\<rfloor>"
    by (rule floor_mono)
  then show "overallScore e r k a \<le> round (e * 0.30 + r * 0.30 + k * 0.20 + a * 0.20 + 1 / 2 ^ 44)"
    by (simp add: overallScore_def Math_round_def round_def)
qed

text \<open>The scores 34, 37, 36 and 0: the composite score lies between 28 and 29.\<close>

theorem overallScore_bounded_witness:
  "(0::real) \<le> 34 \<and> (34::real) \<le> 100 \<and> (0::real) \<le> 37 \<and> (37::real) \<le> 100
   \<and> (0::real) \<le> 36 \<and> (36::real) \<le> 100 \<and> (0::real) \<le> 0 \<and> (0::real) \<le> 100
   \<and> 0 \<le> overallScore 34 37 36 0 \<and> overallScore 34 37 36 0 \<le> 100
   \<and> 28 \<le> overallScore 34 37 36 0 \<and> overallScore 34 37 36 0 \<le> 29"
proof -
  note th = overallScore_bounded[where e = 34 and r = 37 and k = 36 and a = 0,
      THEN conjunct2, THEN conjunct2, THEN conjunct2, THEN conjunct2]
  have lo: "round (34 * 0.30 + 37 * 0.30 + 36 * 0.20 + 0 * 0.20 - 1 / 2 ^ 44 :: real) = 28"
    by (simp add: round_def)
  have hi: "round (34 * 0.30 + 37 * 0.30 + 36 * 0.20 + 0 * 0.20 + 1 / 2 ^ 44 :: real) = 29"
    by (simp add: round_def)
  show ?thesis using th unfolding lo hi by simp
qed

text \<open>
  Against C4 as worded: for the scores 34, 37, 36 and 0 the exact weighted sum is 28.5,
  whose rounding is 29, and the composite score is 28 (the sum computed in doubles is
  just below 28.5).
\<close>

theorem overallScore_counterexample:
  "overallScore 34 37 36 0 = 28
   \<and> round (34 * 0.30 + 37 * 0.30 + 36 * 0.20 + 0 * 0.20 :: real) = 29"
  by (simp add: overallScore_tie_example round_def)

subsection \<open>Geometry\<close>

text \<open>
  Claim C5. For any three landmarks the joint angle is computed without an error, lies
  between 0 and 180 degrees, and is the same when the two outer points are exchanged;
  three coincident points give 0.
\<close>

theorem calculateAngle_range_symmetric:
  "\<exists>v. calculateAngle (Some p1) (Some p2) (Some p3) = Inr v \<and> 0 \<le> v \<and> v \<le> 180
       \<and> calculateAngle (Some p3) (Some p2) (Some p1) = Inr v
       \<and> calculateAngle (Some p2) (Some p2) (Some p2) = Inr 0"
proof -
  define u where "u = atan2 (lm_y p3 - lm_y p2) (lm_x p3 - lm_x p2)"
  define w where "w = atan2 (lm_y p1 - lm_y p2) (lm_x p1 - lm_x p2)"
  define t where "t = \<bar>(u - w) * 180 / pi\<bar>"
  have t360: "t < 360"
    unfolding t_def using atan2_bounds[of "lm_y p3 - lm_y p2" "lm_x p3 - lm_x p2"]
      atan2_bounds[of "lm_y p1 - lm_y p2" "lm_x p1 - lm_x p2"]
    by (intro degrees_bounds) (simp_all add: u_def w_def)
  have t0: "0 \<le> t" unfolding t_def by simp
  have sym: "\<bar>(w - u) * 180 / pi\<bar> = t"
  proof -
    have "(w - u) * 180 / pi = - ((u - w) * 180 / pi)"
      by (simp add: algebra_simps diff_divide_distrib)
    then show ?thesis unfolding t_def by simp
  qed
  have a: "calculateAngle (Some p1) (Some p2) (Some p3) = Inr (if t > 180 then 360 - t else t)"
    by (simp add: calculateAngle_value Let_def t_def u_def w_def)
  have b: "calculateAngle (Some p3) (Some p2) (Some p1) = Inr (if t > 180 then 360 - t else t)"
    using sym by (simp add: calculateAngle_value Let_def u_def w_def)
  have c: "calculateAngle (Some p2) (Some p2) (Some p2) = Inr 0"
    by (simp add: calculateAngle_value atan2_def)
  show ?thesis using a b c t0 t360 by auto
qed

text \<open>
  Claim C6, as the code has it. The release angle is
  \<open>atan2 (shoulder.y - wrist.y) |shoulder.x - wrist.x|\<close> in degrees floored at 0, so it is
  never negative. A wrist level with the shoulder or below it (\<open>y\<close> not smaller) has angle
  0. A wrist raised above the shoulder (smaller \<open>y\<close>) has a positive angle when both points
  are in normalized coordinates, hence an angle strictly larger than that of any wrist that
  is not raised; and straight above the shoulder the angle is exactly 90 degrees whatever
  the height. Nothing is stated about two raised wrists at other separations.
\<close>

theorem release_angle_law:
  "calculateReleaseAngle (Some sh) (Some wr) = Inr (spec_releaseAngle sh wr)
   \<and> 0 \<le> spec_releaseAngle sh wr
   \<and> (lm_y sh \<le> lm_y wr \<longrightarrow> calculateReleaseAngle (Some sh) (Some wr) = Inr 0)
   \<and> (lm_y wr < lm_y sh \<and> lm_x wr = lm_x sh
        \<longrightarrow> calculateReleaseAngle (Some sh) (Some wr) = Inr 90)
   \<and> (normalized sh \<and> normalized wr \<and> lm_y wr < lm_y sh
        \<longrightarrow> (\<exists>v. calculateReleaseAngle (Some sh) (Some wr) = Inr v \<and> 0 < v))
   \<and> (normalized sh \<and> normalized wr \<and> normalized wr' \<and> lm_y wr < lm_y sh \<and> lm_y sh \<le> lm_y wr'
        \<longrightarrow> (\<exists>v v'. calculateReleaseAngle (Some sh) (Some wr) = Inr v
                    \<and> calculateReleaseAngle (Some sh) (Some wr') = Inr v' \<and> v' < v))"
proof -
  have formula: "calculateReleaseAngle (Some sh) (Some wr) = Inr (spec_releaseAngle sh wr)"
    by (simp add: calculateReleaseAngle_value spec_releaseAngle_def)
  have nonneg: "0 \<le> spec_releaseAngle sh wr"
    by (simp add: spec_releaseAngle_def)
  have level: "calculateReleaseAngle (Some sh) (Some w) = Inr 0" if "lm_y sh \<le> lm_y w" for w
  proof -
    have "atan2 (lm_y sh - lm_y w) \<bar>lm_x sh - lm_x w\<bar> \<le> 0"
      using that by (intro atan2_nonpos) simp_all
    then have "atan2 (lm_y sh - lm_y w) \<bar>lm_x sh - lm_x w\<bar> * 180 / pi \<le> 0"
      by (rule degrees_nonpos)
    then show ?thesis by (simp add: calculateReleaseAngle_value max_def)
  qed
  have raised: "0 < atan2 (lm_y sh - lm_y wr) \<bar>lm_x sh - lm_x wr\<bar> * 180 / pi"
    if "lm_y wr < lm_y sh"
  proof -
    have "0 < atan2 (lm_y sh - lm_y wr) \<bar>lm_x sh - lm_x wr\<bar>"
      using that by (intro atan2_raised_pos) simp_all
    then show ?thesis by (rule degrees_pos)
  qed
  have positive: "\<exists>v. calculateReleaseAngle (Some sh) (Some wr) = Inr v \<and> 0 < v"
    if "lm_y wr < lm_y sh"
    using raised[OF that] by (simp add: calculateReleaseAngle_value max_def)
  have above: "calculateReleaseAngle (Some sh) (Some wr) = Inr 90"
    if "lm_y wr < lm_y sh" and "lm_x wr = lm_x sh"
  proof -
    have "atan2 (lm_y sh - lm_y wr) \<bar>lm_x sh - lm_x wr\<bar> = pi / 2"
      using that by (simp add: atan2_vertical)
    then have "atan2 (lm_y sh - lm_y wr) \<bar>lm_x sh - lm_x wr\<bar> * 180 / pi = pi / 2 * 180 / pi"
      by (rule arg_cong)
    then have "atan2 (lm_y sh - lm_y wr) \<bar>lm_x sh - lm_x wr\<bar> * 180 / pi = 90"
      unfolding degrees_half_pi .
    then show ?thesis by (simp add: calculateReleaseAngle_value)
  qed
  have compare: "\<exists>v v'. calculateReleaseAngle (Some sh) (Some wr) = Inr v
                    \<and> calculateReleaseAngle (Some sh) (Some wr') = Inr v' \<and> v' < v"
    if "lm_y wr < lm_y sh" and "lm_y sh \<le> lm_y wr'"
    using positive[OF that(1)] level[OF that(2)] by auto
  show ?thesis
    using formula nonneg level[of wr] above positive compare by blast
qed

text \<open>
  Shoulder at (0.5, 0.5), a wrist straight above it at (0.5, 0.3) and a wrist below it at
  (0.7, 0.6): 90 degrees and 0 degrees.
\<close>

theorem release_angle_law_witness:
  "normalized \<lparr>lm_x = 1 / 2, lm_y = 1 / 2\<rparr> \<and> normalized \<lparr>lm_x = 1 / 2, lm_y = 3 / 10\<rparr>
   \<and> normalized \<lparr>lm_x = 7 / 10, lm_y = 3 / 5\<rparr>
   \<and> lm_y \<lparr>lm_x = 1 / 2, lm_y = 3 / 10\<rparr> < lm_y \<lparr>lm_x = 1 / 2, lm_y = 1 / 2\<rparr>
   \<and> lm_x \<lparr>lm_x = 1 / 2, lm_y = 3 / 10\<rparr> = lm_x \<lparr>lm_x = 1 / 2, lm_y = 1 / 2\<rparr>
   \<and> lm_y \<lparr>lm_x = 1 / 2, lm_y = 1 / 2\<rparr> \<le> lm_y \<lparr>lm_x = 7 / 10, lm_y = 3 / 5\<rparr>
   \<and> calculateReleaseAngle (Some \<lparr>lm_x = 1 / 2, lm_y = 1 / 2\<rparr>) (Some \<lparr>lm_x = 1 / 2, lm_y = 3 / 10\<rparr>)
       = Inr 90
   \<and> calculateReleaseAngle (Some \<lparr>lm_x = 1 / 2, lm_y = 1 / 2\<rparr>) (Some \<lparr>lm_x = 7 / 10, lm_y = 3 / 5\<rparr>)
       = Inr 0
   \<and> (\<exists>v v'. calculateReleaseAngle (Some \<lparr>lm_x = 1 / 2, lm_y = 1 / 2\<rparr>)
                 (Some \<lparr>lm_x = 1 / 2, lm_y = 3 / 10\<rparr>) = Inr v
             \<and> calculateReleaseAngle (Some \<lparr>lm_x = 1 / 2, lm_y = 1 / 2\<rparr>)
                 (Some \<lparr>lm_x = 7 / 10, lm_y = 3 / 5\<rparr>) = Inr v' \<and> v' < v)"
proof -
  let ?sh = "\<lparr>lm_x = 1 / 2, lm_y = 1 / 2\<rparr>"
  let ?up = "\<lparr>lm_x = 1 / 2, lm_y = 3 / 10\<rparr>"
  let ?low = "\<lparr>lm_x = 7 / 10, lm_y = 3 / 5\<rparr>"
  have n: "normalized ?sh" "normalized ?up" "normalized ?low"
    by (simp_all add: normalized_def)
  have o: "lm_y ?up < lm_y ?sh" "lm_x ?up = lm_x ?sh" "lm_y ?sh \<le> lm_y ?low"
    by simp_all
  note up = release_angle_law[where sh = ?sh and wr = ?up and wr' = ?low]
  note low = release_angle_law[where sh = ?sh and wr = ?low and wr' = ?low]
  have a: "calculateReleaseAngle (Some ?sh) (Some ?up) = Inr 90"
    using up o by blast
  have b: "calculateReleaseAngle (Some ?sh) (Some ?low) = Inr 0"
    using low o by blast
  have c: "\<exists>v v'. calculateReleaseAngle (Some ?sh) (Some ?up) = Inr v
             \<and> calculateReleaseAngle (Some ?sh) (Some ?low) = Inr v' \<and> v' < v"
    using up n o by blast
  show ?thesis using n o a b c by (intro conjI)
qed

text \<open>
  Against C6 as worded: with the wrist straight above the shoulder (horizontal distance 0)
  the angle is 90 degrees at height 0.4 and still 90 degrees at the higher 0.3.
\<close>

theorem release_angle_counterexample:
  "calculateReleaseAngle (Some \<lparr>lm_x = 1 / 2, lm_y = 1 / 2\<rparr>) (Some \<lparr>lm_x = 1 / 2, lm_y = 2 / 5\<rparr>) = Inr 90
   \<and> calculateReleaseAngle (Some \<lparr>lm_x = 1 / 2, lm_y = 1 / 2\<rparr>) (Some \<lparr>lm_x = 1 / 2, lm_y = 3 / 10\<rparr>) = Inr 90"
  by (simp add: calculateReleaseAngle_def atan2_def)

subsection \<open>Frames without a pose\<close>

text \<open>
  Claim C7. A frame without a pose returns normally, and any number of such frames in a
  row leaves the state as it was except for the feedback text: the four queues, the frame
  counter and hence the four smoothed values are those from before the gap.
\<close>

theorem no_detection_frames:
  "fst (onPoseResults \<lparr>poseLandmarks = None\<rparr> s) = Returned
   \<and> run (replicate n (Frame \<lparr>poseLandmarks = None\<rparr>)) s =
       (if n = 0 then s else s\<lparr>ui := (ui s)\<lparr>form_feedback := NoPersonDetected\<rparr>\<rparr>)
   \<and> data (run (replicate n (Frame \<lparr>poseLandmarks = None\<rparr>)) s) = data s
   \<and> frameCount (run (replicate n (Frame \<lparr>poseLandmarks = None\<rparr>)) s) = frameCount s
   \<and> average (elbowAngles (data (run (replicate n (Frame \<lparr>poseLandmarks = None\<rparr>)) s)))
       = average (elbowAngles (data s))
   \<and> average (releaseHeights (data (run (replicate n (Frame \<lparr>poseLandmarks = None\<rparr>)) s)))
       = average (releaseHeights (data s))
   \<and> average (kneeAngles (data (run (replicate n (Frame \<lparr>poseLandmarks = None\<rparr>)) s)))
       = average (kneeAngles (data s))
   \<and> average (alignmentScores (data (run (replicate n (Frame \<lparr>poseLandmarks = None\<rparr>)) s)))
       = average (alignmentScores (data s))"
  by (simp add: no_detection_run onPoseResults_def)

subsection \<open>Reset\<close>

text \<open>
  Claim C8. Reset empties the four queues and zeroes the frame counter, whatever the
  state. A push right after it leaves one-element queues whose means are the pushed
  values, so the first valid frame after a reset has its raw metrics as smoothed values
  (and shows them rounded), and is counted as frame 1.
\<close>

theorem reset_then_first_frame:
  "data (resetStats s) =
     \<lparr>elbowAngles = [], releaseHeights = [], kneeAngles = [], alignmentScores = []\<rparr>
   \<and> frameCount (resetStats s) = 0
   \<and> average (elbowAngles (keepLast30 (pushMetrics m (data (resetStats s))))) = raw_elbow m
   \<and> average (releaseHeights (keepLast30 (pushMetrics m (data (resetStats s))))) = raw_release m
   \<and> average (kneeAngles (keepLast30 (pushMetrics m (data (resetStats s))))) = raw_knee m
   \<and> average (alignmentScores (keepLast30 (pushMetrics m (data (resetStats s))))) = raw_alignment m
   \<and> (rawMetrics r = Some m \<longrightarrow>
        fst (onPoseResults r (resetStats s)) = Returned
        \<and> data (snd (onPoseResults r (resetStats s))) =
            \<lparr>elbowAngles = [raw_elbow m], releaseHeights = [raw_release m],
             kneeAngles = [raw_knee m], alignmentScores = [raw_alignment m]\<rparr>
        \<and> frameCount (snd (onPoseResults r (resetStats s))) = 1
        \<and> average (elbowAngles (data (snd (onPoseResults r (resetStats s))))) = raw_elbow m
        \<and> average (releaseHeights (data (snd (onPoseResults r (resetStats s))))) = raw_release m
        \<and> average (kneeAngles (data (snd (onPoseResults r (resetStats s))))) = raw_knee m
        \<and> average (alignmentScores (data (snd (onPoseResults r (resetStats s))))) = raw_alignment m
        \<and> elbow_angle (ui (snd (onPoseResults r (resetStats s)))) = Shown (Math_round (raw_elbow m))
        \<and> release_height (ui (snd (onPoseResults r (resetStats s)))) = Shown (Math_round (raw_release m))
        \<and> knee_angle (ui (snd (onPoseResults r (resetStats s)))) = Shown (Math_round (raw_knee m))
        \<and> alignment_score (ui (snd (onPoseResults r (resetStats s))))
            = Shown (Math_round (raw_alignment m)))"
proof -
  have fc: "frameCount (resetStats s) = 0" by (simp add: resetStats_def Let_def)
  have frame: "onPoseResults r (resetStats s) =
     (Returned, (resetStats s)\<lparr>data := keepLast30 (pushMetrics m (data (resetStats s))),
                  ui := report (keepLast30 (pushMetrics m (data (resetStats s)))) (ui (resetStats s)),
                  frameCount := frameCount (resetStats s) + 1\<rparr>)"
    if "rawMetrics r = Some m"
    using that by (rule onPoseResults_valid)
  show ?thesis
    by (intro conjI impI)
      (simp_all add: data_reset fc frame keep_push_empty average_single report_displays)
qed

text \<open>Five still frames, a reset, then the example frame.\<close>

theorem reset_then_first_frame_witness:
  "rawMetrics \<lparr>poseLandmarks = Some example_pose\<rparr> = Some example_metrics
   \<and> data (snd (onPoseResults \<lparr>poseLandmarks = Some example_pose\<rparr>
        (resetStats (run (replicate 5 (Frame \<lparr>poseLandmarks = Some still_pose\<rparr>)) initial_state))))
      = \<lparr>elbowAngles = [90], releaseHeights = [45], kneeAngles = [135], alignmentScores = [90]\<rparr>
   \<and> average (kneeAngles (data (snd (onPoseResults \<lparr>poseLandmarks = Some example_pose\<rparr>
        (resetStats (run (replicate 5 (Frame \<lparr>poseLandmarks = Some still_pose\<rparr>)) initial_state))))))
      = 135"
proof -
  note th = reset_then_first_frame[where
      s = "run (replicate 5 (Frame \<lparr>poseLandmarks = Some still_pose\<rparr>)) initial_state"
      and m = example_metrics and r = "\<lparr>poseLandmarks = Some example_pose\<rparr>"]
  note fr = th[THEN conjunct2, THEN conjunct2, THEN conjunct2, THEN conjunct2, THEN conjunct2,
      THEN conjunct2, THEN mp, OF rawMetrics_example]
  have a: "data (snd (onPoseResults \<lparr>poseLandmarks = Some example_pose\<rparr>
        (resetStats (run (replicate 5 (Frame \<lparr>poseLandmarks = Some still_pose\<rparr>)) initial_state))))
      = \<lparr>elbowAngles = [90], releaseHeights = [45], kneeAngles = [135], alignmentScores = [90]\<rparr>"
    unfolding fr[THEN conjunct2, THEN conjunct1] by (simp add: example_metrics_def)
  have b: "average (kneeAngles (data (snd (onPoseResults \<lparr>poseLandmarks = Some example_pose\<rparr>
        (resetStats (run (replicate 5 (Frame \<lparr>poseLandmarks = Some still_pose\<rparr>)) initial_state))))))
      = 135"
    unfolding fr[THEN conjunct2, THEN conjunct2, THEN conjunct2, THEN conjunct2, THEN conjunct2,
        THEN conjunct1]
    by (simp add: example_metrics_def)
  show ?thesis using rawMetrics_example a b by (intro conjI)
qed

subsection \<open>Classification\<close>

text \<open>
  Claim C9. The overall tier is decided by the composite score alone, first match of the
  descending thresholds 85, 70, 50; each status label is decided by its own smoothed
  metric alone, in the bands of the spec; and the labels a frame writes depend on the
  queues only, not on what the page showed before.
\<close>

theorem classifier_bands:
  "(form_feedback (updateFeedback ov e r k a p) = Excellent \<longleftrightarrow> 85 \<le> ov)
   \<and> (form_feedback (updateFeedback ov e r k a p) = Good \<longleftrightarrow> 70 \<le> ov \<and> ov < 85)
   \<and> (form_feedback (updateFeedback ov e r k a p) = Fair \<longleftrightarrow> 50 \<le> ov \<and> ov < 70)
   \<and> (form_feedback (updateFeedback ov e r k a p) = NeedsImprovement \<longleftrightarrow> ov < 50)
   \<and> form_feedback (updateFeedback ov e r k a p) = form_feedback (updateFeedback ov e' r' k' a' p')
   \<and> (elbow_status (updateStatusMessages el rl kn al p) = Some PerfectElbow \<longleftrightarrow> 85 \<le> el \<and> el \<le> 95)
   \<and> (elbow_status (updateStatusMessages el rl kn al p) = Some RaiseElbow \<longleftrightarrow> el < 85)
   \<and> (elbow_status (updateStatusMessages el rl kn al p) = Some LowerElbow \<longleftrightarrow> 95 < el)
   \<and> (release_status (updateStatusMessages el rl kn al p) = Some OptimalRelease \<longleftrightarrow> 45 \<le> rl \<and> rl \<le> 60)
   \<and> (release_status (updateStatusMessages el rl kn al p) = Some ReleaseTooLow \<longleftrightarrow> rl < 45)
   \<and> (release_status (updateStatusMessages el rl kn al p) = Some ReleaseTooHigh \<longleftrightarrow> 60 < rl)
   \<and> (knee_status (updateStatusMessages el rl kn al p) = Some GoodKneeBend \<longleftrightarrow> 100 \<le> kn \<and> kn \<le> 130)
   \<and> (knee_status (updateStatusMessages el rl kn al p) = Some BendKneesMore \<longleftrightarrow> kn < 100)
   \<and> (knee_status (updateStatusMessages el rl kn al p) = Some KneesTooBent \<longleftrightarrow> 130 < kn)
   \<and> (alignment_status (updateStatusMessages el rl kn al p) = Some PerfectAlignment \<longleftrightarrow> 90 \<le> al)
   \<and> (alignment_status (updateStatusMessages el rl kn al p) = Some CheckShoulderLevel \<longleftrightarrow> al < 90)
   \<and> elbow_status (updateStatusMessages el rl kn al p)
       = elbow_status (updateStatusMessages el rl' kn' al' p')
   \<and> release_status (updateStatusMessages el rl kn al p)
       = release_status (updateStatusMessages el' rl kn' al' p')
   \<and> knee_status (updateStatusMessages el rl kn al p)
       = knee_status (updateStatusMessages el' rl' kn al' p')
   \<and> alignment_status (updateStatusMessages el rl kn al p)
       = alignment_status (updateStatusMessages el' rl' kn' al p')
   \<and> form_feedback (report d p) = form_feedback (report d p')
   \<and> elbow_status (report d p) = elbow_status (report d p')
   \<and> release_status (report d p) = release_status (report d p')
   \<and> knee_status (report d p) = knee_status (report d p')
   \<and> alignment_status (report d p) = alignment_status (report d p')"
  unfolding report_labels
  by (simp add: feedback_of_updateFeedback statuses_of_updateStatusMessages)

subsection \<open>The four queues have one length\<close>

text \<open>
  Claim C10. In every state a session reaches from the initial one, by frames of any kind
  and resets in any order, the four queues have the same length. Reset establishes this
  and every event preserves it: the four pushes keep the lengths equal, and then the test
  on the elbow queue alone evicts from each queue exactly when that queue itself has become
  longer than 30.
\<close>

theorem queues_same_length:
  "sameLengths (data (run evs initial_state))
   \<and> sameLengths (data (resetStats s))
   \<and> (sameLengths (data s) \<longrightarrow>
        sameLengths (data (step s ev))
        \<and> sameLengths (pushMetrics m (data s))
        \<and> keepLast30 (pushMetrics m (data s)) =
            \<lparr>elbowAngles = spec_evict (elbowAngles (data s) @ [raw_elbow m]),
             releaseHeights = spec_evict (releaseHeights (data s) @ [raw_release m]),
             kneeAngles = spec_evict (kneeAngles (data s) @ [raw_knee m]),
             alignmentScores = spec_evict (alignmentScores (data s) @ [raw_alignment m])\<rparr>)"
proof (intro conjI impI)
  have "sameLengths (data initial_state)"
    by (simp add: sameLengths_def initial_state_def)
  then show "sameLengths (data (run evs initial_state))" by (rule sameLengths_run)
  show "sameLengths (data (resetStats s))" by (rule sameLengths_reset)
next
  assume h: "sameLengths (data s)"
  then show "sameLengths (data (step s ev))" by (rule sameLengths_step)
  from h show "sameLengths (pushMetrics m (data s))"
    by (simp add: sameLengths_def pushMetrics_def)
  from h show "keepLast30 (pushMetrics m (data s)) =
            \<lparr>elbowAngles = spec_evict (elbowAngles (data s) @ [raw_elbow m]),
             releaseHeights = spec_evict (releaseHeights (data s) @ [raw_release m]),
             kneeAngles = spec_evict (kneeAngles (data s) @ [raw_knee m]),
             alignmentScores = spec_evict (alignmentScores (data s) @ [raw_alignment m])\<rparr>"
    by (rule keep_push_evict)
qed

theorem queues_same_length_witness:
  "sameLengths (data initial_state)
   \<and> sameLengths (data (step initial_state (Frame \<lparr>poseLandmarks = Some example_pose\<rparr>)))
   \<and> data (step initial_state (Frame \<lparr>poseLandmarks = Some example_pose\<rparr>))
       = \<lparr>elbowAngles = [90], releaseHeights = [45], kneeAngles = [135], alignmentScores = [90]\<rparr>"
proof -
  have i: "sameLengths (data initial_state)"
    by (simp add: sameLengths_def initial_state_def)
  note th = queues_same_length[where evs = "[]" and s = initial_state
      and ev = "Frame \<lparr>poseLandmarks = Some example_pose\<rparr>" and m = example_metrics]
  note pres = th[THEN conjunct2, THEN conjunct2, THEN mp, OF i]
  have d: "data (step initial_state (Frame \<lparr>poseLandmarks = Some example_pose\<rparr>))
       = \<lparr>elbowAngles = [90], releaseHeights = [45], kneeAngles = [135], alignmentScores = [90]\<rparr>"
    unfolding step_valid_data[OF rawMetrics_example] pres[THEN conjunct2, THEN conjunct2]
    by (simp add: spec_evict_def initial_state_def example_metrics_def)
  show ?thesis using i pres[THEN conjunct1] d by (intro conjI)
qed

end
